theory Spec2Isabelle
  imports Main "HOL-Library.Product_Lexorder"
begin

section \<open>JavaScript values used by the storefront\<close>

text \<open>
  Numbers that the code compares and adds (quantities, stock, prices, variant ids) are
  modelled as integers. The code's numbers are IEEE doubles: they agree with the integers
  on sums and comparisons as long as the magnitudes stay below \<open>2 ^ 53\<close>, and that is the
  range the model speaks about; fractions are outside it. An optional property
  (\<^verbatim>\<open>stock?: number\<close>) is an \<open>int option\<close>, \<open>None\<close> being \<^verbatim>\<open>undefined\<close>.
\<close>

text \<open>Truthiness of an optional number: \<^verbatim>\<open>undefined\<close> and \<^verbatim>\<open>0\<close> are falsy.\<close>

definition truthy :: "int option \<Rightarrow> bool" where
  "truthy x = (case x of None \<Rightarrow> False | Some n \<Rightarrow> n \<noteq> 0)"

text \<open>\<^verbatim>\<open>x ?? 0\<close> on an optional number.\<close>

definition nullish0 :: "int option \<Rightarrow> int" where
  "nullish0 x = (case x of None \<Rightarrow> 0 | Some n \<Rightarrow> n)"

text \<open>\<^verbatim>\<open>x || y\<close> on numbers: \<^verbatim>\<open>0\<close> is the falsy number.\<close>

definition js_or :: "int \<Rightarrow> int \<Rightarrow> int" where
  "js_or x y = (if x \<noteq> 0 then x else y)"

text \<open>The guard \<^verbatim>\<open>s && n > s\<close> for an optional number \<open>s\<close>.\<close>

definition and_gt :: "int option \<Rightarrow> int \<Rightarrow> bool" where
  "and_gt s n = (case s of None \<Rightarrow> False | Some S \<Rightarrow> S \<noteq> 0 \<and> n > S)"

text \<open>The guard \<^verbatim>\<open>s && n < s\<close> for an optional number \<open>s\<close>.\<close>

definition and_lt :: "int option \<Rightarrow> int \<Rightarrow> bool" where
  "and_lt s n = (case s of None \<Rightarrow> False | Some S \<Rightarrow> S \<noteq> 0 \<and> n < S)"

section \<open>Cart store (cart-context)\<close>

text \<open>
  \<^verbatim>\<open>interface CartItem { id; name; price; image; stock?; quantity? }\<close>.
  A line appended by \<^verbatim>\<open>ADD_ITEM\<close> is the spread of the action's payload, so the stored
  object also carries the payload's \<^verbatim>\<open>quantityToAdd\<close> property; the last field holds it.
\<close>

record cart_item =
  item_id :: string
  item_name :: string
  item_price :: int
  item_image :: string
  item_stock :: "int option"
  item_quantity :: "int option"
  item_quantityToAdd :: "int option"

record cart_state =
  items :: "cart_item list"

text \<open>
  \<^verbatim>\<open>ADD_ITEM\<close> carries the item and, beside it, \<^verbatim>\<open>quantityToAdd\<close>;
  \<^verbatim>\<open>UPDATE_QUANTITY\<close> carries \<^verbatim>\<open>id\<close> and \<^verbatim>\<open>quantity\<close>.
\<close>

datatype cart_action =
    ADD_ITEM cart_item int
  | REMOVE_ITEM string
  | UPDATE_QUANTITY string int
  | CLEAR_CART
  | SET_CART "cart_item list"

text \<open>\<^verbatim>\<open>items.map(item => item.id === id ? { ...item, quantity: n } : item)\<close>\<close>

definition map_quantity :: "string \<Rightarrow> int \<Rightarrow> cart_item list \<Rightarrow> cart_item list" where
  "map_quantity i n xs =
     map (\<lambda>item. if item_id item = i then item\<lparr>item_quantity := Some n\<rparr> else item) xs"

fun cartReducer :: "cart_state \<Rightarrow> cart_action \<Rightarrow> cart_state" where
  "cartReducer state (ADD_ITEM payload quantityToAdd) =
     (case find (\<lambda>item. item_id item = item_id payload) (items state) of
        Some existingItem \<Rightarrow>
          (let newQuantity = nullish0 (item_quantity existingItem) + quantityToAdd in
           if and_gt (item_stock existingItem) newQuantity then state
           else state\<lparr>items := map_quantity (item_id payload) newQuantity (items state)\<rparr>)
      | None \<Rightarrow>
          if and_gt (item_stock payload) quantityToAdd then state
          else state\<lparr>items := items state @
                 [payload\<lparr>item_quantity := Some quantityToAdd,
                          item_quantityToAdd := Some quantityToAdd\<rparr>]\<rparr>)"
| "cartReducer state (REMOVE_ITEM i) =
     state\<lparr>items := filter (\<lambda>item. item_id item \<noteq> i) (items state)\<rparr>"
| "cartReducer state (UPDATE_QUANTITY i n) =
     (let existingItem = find (\<lambda>item. item_id item = i) (items state) in
      if n \<le> 0 then state\<lparr>items := filter (\<lambda>item. item_id item \<noteq> i) (items state)\<rparr>
      else
        (case existingItem of
           None \<Rightarrow> state
         | Some e \<Rightarrow>
             if n < nullish0 (item_quantity e) then
               state\<lparr>items := map_quantity i n (items state)\<rparr>
             else if and_lt (item_stock e) (nullish0 (item_quantity e)) then
               state\<lparr>items := map_quantity i n (items state)\<rparr>
             else state))"
| "cartReducer state (SET_CART xs) = state\<lparr>items := xs\<rparr>"
| "cartReducer state CLEAR_CART = \<lparr>items = []\<rparr>"

text \<open>The store's \<^verbatim>\<open>addItem(item, quantity = 1)\<close> dispatches \<^verbatim>\<open>ADD_ITEM\<close>.\<close>

definition addItem :: "cart_state \<Rightarrow> cart_item \<Rightarrow> int option \<Rightarrow> cart_state" where
  "addItem state item quantity =
     cartReducer state (ADD_ITEM item (case quantity of None \<Rightarrow> 1 | Some n \<Rightarrow> n))"

text \<open>A run of \<^verbatim>\<open>ADD_ITEM\<close> dispatches, oldest first.\<close>

definition add_all :: "cart_state \<Rightarrow> (cart_item \<times> int) list \<Rightarrow> cart_state" where
  "add_all state acts = foldl (\<lambda>s (p, n). cartReducer s (ADD_ITEM p n)) state acts"

text \<open>The quantity a line counts for, \<^verbatim>\<open>item.quantity ?? 0\<close>.\<close>

definition qty :: "cart_item \<Rightarrow> int" where
  "qty l = nullish0 (item_quantity l)"

subsection \<open>Cart API bridge\<close>

record api_item =
  api_id :: string
  title :: string
  unit_price :: int
  api_quantity :: int
  api_image :: "string option"

definition transformApiCartToCartItems :: "api_item list \<Rightarrow> cart_item list" where
  "transformApiCartToCartItems api_items =
     map (\<lambda>item. \<lparr>item_id = api_id item,
                   item_name = title item,
                   item_price = unit_price item,
                   item_image = (case api_image item of None \<Rightarrow> [] | Some s \<Rightarrow> s),
                   item_stock = None,
                   item_quantity = Some (api_quantity item),
                   item_quantityToAdd = None\<rparr>) api_items"

text \<open>
  What \<^verbatim>\<open>await response.json()\<close> gives: a failure to parse, or a body whose
  \<^verbatim>\<open>products\<close> property is an array (\<open>Some\<close>) or is not (\<open>None\<close>).
\<close>

datatype json_body = ParseFailure | Body "api_item list option"

text \<open>What \<^verbatim>\<open>await fetch(url)\<close> gives: a rejection, or a status and a body.\<close>

datatype fetch_result = NetworkFailure | Response int json_body

text \<open>The address \<^verbatim>\<open>`/api/cart?idCart=${cartId}`\<close>.\<close>

definition cart_url :: "string \<Rightarrow> string" where
  "cart_url cartId = ''/api/cart?idCart='' @ cartId"

text \<open>
  \<^verbatim>\<open>getCartFromApi(cartId)\<close>. The first argument says whether \<^verbatim>\<open>window\<close> is defined,
  the second is the \<^verbatim>\<open>fetch\<close> of the environment. Every \<^verbatim>\<open>throw\<close> inside the
  \<^verbatim>\<open>try\<close> ends in the \<^verbatim>\<open>catch\<close>, which returns the empty list.
\<close>

definition getCartFromApi :: "bool \<Rightarrow> (string \<Rightarrow> fetch_result) \<Rightarrow> string \<Rightarrow> cart_item list" where
  "getCartFromApi has_window fetch cartId =
     (if \<not> has_window then []
      else
        (case fetch (cart_url cartId) of
           NetworkFailure \<Rightarrow> []
         | Response status ParseFailure \<Rightarrow> []
         | Response status (Body products) \<Rightarrow>
             if status = 200 \<or> status = 404 then
               (case products of
                  None \<Rightarrow> []
                | Some ps \<Rightarrow> if length ps > 0 then transformApiCartToCartItems ps else [])
             else []))"

subsection \<open>Predicates and sample lines for the cart properties\<close>

text \<open>A line with id \<open>a\<close>, quantity \<open>q\<close> and stock \<open>S\<close>, as in the scenarios of the specification.\<close>

definition line_a :: "int \<Rightarrow> int \<Rightarrow> cart_item" where
  "line_a q S = \<lparr>item_id = ''a'', item_name = ''A'', item_price = 10, item_image = [],
      item_stock = Some S, item_quantity = Some q, item_quantityToAdd = None\<rparr>"

text \<open>The item a caller passes to \<^verbatim>\<open>addItem\<close> for that line: no quantity yet.\<close>

definition payload_a :: "int \<Rightarrow> cart_item" where
  "payload_a S = \<lparr>item_id = ''a'', item_name = ''A'', item_price = 10, item_image = [],
      item_stock = Some S, item_quantity = None, item_quantityToAdd = None\<rparr>"

text \<open>Every line with id \<open>i\<close> carries the stock \<open>S\<close> and a quantity of at most \<open>S\<close>.\<close>

definition within_stock :: "string \<Rightarrow> int \<Rightarrow> cart_state \<Rightarrow> bool" where
  "within_stock i S s =
     list_all (\<lambda>l. item_id l \<noteq> i \<or> (item_stock l = Some S \<and> qty l \<le> S)) (items s)"

text \<open>
  The invariant of a cart line: its quantity is positive, and a defined, non-zero stock
  bounds it. A line without quantity counts for 0.
\<close>

definition line_ok :: "cart_item \<Rightarrow> bool" where
  "line_ok l =
     (0 < qty l \<and> (case item_stock l of None \<Rightarrow> True | Some S \<Rightarrow> S = 0 \<or> qty l \<le> S))"

definition cart_lines_ok :: "cart_state \<Rightarrow> bool" where
  "cart_lines_ok s = list_all line_ok (items s)"

text \<open>The ids of the lines are unique within the cart.\<close>

definition unique_ids :: "cart_state \<Rightarrow> bool" where
  "unique_ids s = distinct (map item_id (items s))"

text \<open>A line of the remote cart, without image.\<close>

definition api_line :: "string \<Rightarrow> int \<Rightarrow> api_item" where
  "api_line i q = \<lparr>api_id = i, title = ''Shampoo'', unit_price = 10, api_quantity = q, api_image = None\<rparr>"

section \<open>Product catalog (app/api/products/route)\<close>

text \<open>
  \<^verbatim>\<open>interface IVariant\<close>. The fields are numbers, strings and a boolean, as declared;
  \<^verbatim>\<open>price\<close> is \<open>variant_price\<close> here. A variant sent without \<^verbatim>\<open>variant_id\<close> has the id 0:
  absent and 0 take the same branch of \<^verbatim>\<open>variant.variant_id || ...\<close>.
\<close>

record variant =
  variant_id :: int
  sku :: string
  label :: string
  color :: string
  variant_price :: int
  promotional_price :: int
  effective_price :: int
  stock_total :: int
  image_url :: string
  visible :: bool
  weight :: int

text \<open>\<^verbatim>\<open>interface Product\<close>, with \<open>oid\<close> for \<^verbatim>\<open>_id\<close> (ordered as the database orders it).\<close>

record product =
  oid :: nat
  product_name :: string
  description :: string
  brand :: "string option"
  product_id :: "int option"
  images :: "string list"
  price :: int
  salePrice :: "int option"
  stock :: "int option"
  quantity :: "int option"
  category :: "string option"
  variants :: "variant list"

subsection \<open>Variant aggregation on create and update\<close>

text \<open>
  One step of \<^verbatim>\<open>variants.map(variant => ({ ...variant, effective_price: ..., variant_id: ... }))\<close>.
  The first argument stands for the value of \<^verbatim>\<open>Date.now() + Math.random()\<close> at that step.
\<close>

definition process_variant :: "int \<Rightarrow> variant \<Rightarrow> variant" where
  "process_variant generated v =
     v\<lparr>effective_price :=
          (if promotional_price v > 0 then promotional_price v else variant_price v),
       variant_id := js_or (variant_id v) generated\<rparr>"

definition processVariants :: "(nat \<Rightarrow> int) \<Rightarrow> variant list \<Rightarrow> variant list" where
  "processVariants generated vs =
     map (\<lambda>(k, v). process_variant (generated k) v) (enumerate 0 vs)"

text \<open>\<^verbatim>\<open>processedVariants.reduce((sum, variant) => sum + (variant.stock_total || 0), 0)\<close>\<close>

definition totalStock :: "variant list \<Rightarrow> int" where
  "totalStock processedVariants =
     foldl (\<lambda>sum v. sum + js_or (stock_total v) 0) 0 processedVariants"

text \<open>\<^verbatim>\<open>Math.min(x, ...xs)\<close> with at least one argument.\<close>

definition Math_min :: "int \<Rightarrow> int list \<Rightarrow> int" where
  "Math_min x xs = fold min xs x"

text \<open>
  \<^verbatim>\<open>processedVariants.length > 0 ? Math.min(...processedVariants.map(v => v.effective_price || v.price)) : fallback\<close>.
  The fallback is \<^verbatim>\<open>productData.price\<close> on create and \<^verbatim>\<open>updateData.price\<close>, which may be
  absent, on update; so the result is optional.
\<close>

definition minPrice :: "variant list \<Rightarrow> int option \<Rightarrow> int option" where
  "minPrice processedVariants fallback =
     (case map (\<lambda>v. js_or (effective_price v) (variant_price v)) processedVariants of
        [] \<Rightarrow> fallback
      | x # xs \<Rightarrow> Some (Math_min x xs))"

text \<open>The answers of the route handlers: the status, and the JSON body of a success.\<close>

datatype 'a response =
    Ok200 'a
  | Created201 'a
  | BadRequest400
  | Unauthorized401
  | NotFound404
  | ServerError500

text \<open>\<^verbatim>\<open>!session || session.user.role !== "admin"\<close>; a session is the role of its user.\<close>

definition unauthorized :: "string option \<Rightarrow> bool" where
  "unauthorized session = (case session of None \<Rightarrow> True | Some role \<Rightarrow> role \<noteq> ''admin'')"

text \<open>The body of a create request. An absent string is the empty string: both are falsy.\<close>

record product_data =
  pd_name :: string
  pd_description :: string
  pd_price :: "int option"
  pd_brand :: string
  pd_product_id :: "int option"
  pd_images :: "string list option"
  pd_category :: string
  pd_variants :: "variant list option"

text \<open>
  \<^verbatim>\<open>POST\<close>. Arguments beside the body: the session, the generated variant ids, the
  \<^verbatim>\<open>_id\<close> of the new document, and whether the database calls succeed (a throw is caught
  and answered with 500). The document is the one handed to \<^verbatim>\<open>new Product\<close>.
\<close>

definition POST :: "string option \<Rightarrow> (nat \<Rightarrow> int) \<Rightarrow> nat \<Rightarrow> bool \<Rightarrow> product_data \<Rightarrow> product response" where
  "POST session generated new_oid db_ok productData =
     (if unauthorized session then Unauthorized401
      else
        (case pd_price productData of
           None \<Rightarrow> BadRequest400
         | Some top_price \<Rightarrow>
             if pd_name productData = [] \<or> pd_description productData = [] then BadRequest400
             else if \<not> db_ok then ServerError500
             else
               (let processedVariants =
                      (case pd_variants productData of
                         None \<Rightarrow> []
                       | Some vs \<Rightarrow> processVariants generated vs);
                    total = totalStock processedVariants;
                    minp = (case minPrice processedVariants (Some top_price) of
                              None \<Rightarrow> top_price | Some m \<Rightarrow> m)
                in Created201
                     \<lparr>oid = new_oid,
                      product_name = pd_name productData,
                      description = pd_description productData,
                      brand = (if pd_brand productData = [] then None
                               else Some (pd_brand productData)),
                      product_id = (if truthy (pd_product_id productData)
                                    then pd_product_id productData else None),
                      images = (case pd_images productData of None \<Rightarrow> [] | Some is \<Rightarrow> is),
                      price = minp,
                      salePrice = Some minp,
                      stock = Some total,
                      quantity = Some total,
                      category = Some (pd_category productData),
                      variants = processedVariants\<rparr>)))"

text \<open>The patch of an update request: the body without its \<^verbatim>\<open>id\<close>.\<close>

record update_data =
  ud_name :: "string option"
  ud_description :: "string option"
  ud_category :: "string option"
  ud_price :: "int option"
  ud_salePrice :: "int option"
  ud_stock :: "int option"
  ud_quantity :: "int option"
  ud_variants :: "variant list option"

text \<open>The block \<^verbatim>\<open>if (updateData.variants) { ... }\<close> of \<^verbatim>\<open>PUT\<close>; an array is truthy even when empty.\<close>

definition aggregate_update :: "(nat \<Rightarrow> int) \<Rightarrow> update_data \<Rightarrow> update_data" where
  "aggregate_update generated updateData =
     (case ud_variants updateData of
        None \<Rightarrow> updateData
      | Some vs \<Rightarrow>
          (let processedVariants = processVariants generated vs;
               total = totalStock processedVariants;
               minp = minPrice processedVariants (ud_price updateData)
           in updateData\<lparr>ud_variants := Some processedVariants,
                          ud_stock := Some total,
                          ud_quantity := Some total,
                          ud_price := minp,
                          ud_salePrice := minp\<rparr>))"

text \<open>
  \<^verbatim>\<open>PUT\<close>. \<open>findByIdAndUpdate\<close> is the database's: it gives the updated document, or nothing
  when no document has the id.
\<close>

definition PUT :: "string option \<Rightarrow> (nat \<Rightarrow> int) \<Rightarrow> bool \<Rightarrow>
    (string \<Rightarrow> update_data \<Rightarrow> product option) \<Rightarrow> string \<Rightarrow> update_data \<Rightarrow> product response" where
  "PUT session generated db_ok findByIdAndUpdate ident updateData =
     (if unauthorized session then Unauthorized401
      else if ident = [] then BadRequest400
      else if \<not> db_ok then ServerError500
      else
        (case findByIdAndUpdate ident (aggregate_update generated updateData) of
           None \<Rightarrow> NotFound404
         | Some updatedProduct \<Rightarrow> Ok200 updatedProduct))"

subsection \<open>Listing\<close>

text \<open>
  The query parameters of a list request as \<^verbatim>\<open>searchParams.get\<close> returns them, \<open>None\<close> for
  an absent one; the numeric ones are already read by \<^verbatim>\<open>Number\<close>.
\<close>

record list_request =
  page_param :: "int option"
  limit_param :: "int option"
  q_param :: "string option"
  category_param :: "string option"
  priceFilter_param :: "string option"
  maxPrice_param :: "int option"

text \<open>\<^verbatim>\<open>String.prototype.trim\<close> on the ASCII white space.\<close>

definition is_space :: "char \<Rightarrow> bool" where
  "is_space c = (c \<in> set [CHR '' '', CHR 0x09, CHR 0x0A, CHR 0x0B, CHR 0x0C, CHR 0x0D])"

definition trim :: "string \<Rightarrow> string" where
  "trim s = rev (dropWhile is_space (rev (dropWhile is_space s)))"

text \<open>\<^verbatim>\<open>(searchParams.get(k) ?? "").trim()\<close>\<close>

definition param_text :: "string option \<Rightarrow> string" where
  "param_text v = trim (case v of None \<Rightarrow> [] | Some s \<Rightarrow> s)"

text \<open>
  The conditions that the handler writes into its filter document, with the meaning the
  database gives them: a comparison on a field holds only when the document has the field.
\<close>

datatype query =
    Name_regex_i string
  | SalePrice_gt_lte int int
  | SalePrice_eq int
  | SalePrice_missing
  | Price_lte int
  | Q_or "query list"
  | Q_and "query list"

text \<open>
  The filter document: its \<^verbatim>\<open>$or\<close> key and its \<^verbatim>\<open>category\<close> key, each present or not. An
  assignment to a key replaces what the key held.
\<close>

record filter_doc =
  f_or :: "query list option"
  f_category :: "string option"

text \<open>The filter of \<^verbatim>\<open>GET\<close>, from the trimmed \<^verbatim>\<open>q\<close> and \<^verbatim>\<open>category\<close> and from \<^verbatim>\<open>maxPrice\<close>.\<close>

definition build_filter :: "string \<Rightarrow> string \<Rightarrow> int option \<Rightarrow> filter_doc" where
  "build_filter q cat maxPrice =
     (let filter0 = (if q \<noteq> [] then \<lparr>f_or = Some [Name_regex_i q], f_category = None\<rparr>
                     else \<lparr>f_or = None, f_category = None\<rparr>);
          filter1 = (if cat \<noteq> [] then filter0\<lparr>f_category := Some cat\<rparr> else filter0)
      in (case maxPrice of
            None \<Rightarrow> filter1
          | Some m \<Rightarrow>
              if m \<noteq> 0 then
                filter1\<lparr>f_or := Some [SalePrice_gt_lte 0 m,
                                       Q_and [Q_or [SalePrice_eq 0, SalePrice_missing],
                                              Price_lte m]]\<rparr>
              else filter1))"

text \<open>ASCII lower case, for the option \<^verbatim>\<open>i\<close> of the name pattern.\<close>

definition lower :: "char \<Rightarrow> char" where
  "lower c = (let n = (of_char c :: nat) in if 65 \<le> n \<and> n \<le> 90 then char_of (n + 32) else c)"

fun starts_with :: "string \<Rightarrow> string \<Rightarrow> bool" where
  "starts_with [] s = True"
| "starts_with (c # cs) [] = False"
| "starts_with (c # cs) (d # ds) = (c = d \<and> starts_with cs ds)"

fun contains :: "string \<Rightarrow> string \<Rightarrow> bool" where
  "contains q [] = (q = [])"
| "contains q (d # ds) = (starts_with q (d # ds) \<or> contains q ds)"

text \<open>
  \<^verbatim>\<open>{ name: { $regex: q, $options: "i" } }\<close>. The pattern is matched by the database; for a
  pattern of literal characters the match is the case-insensitive substring test, and that
  is what is modelled.
\<close>

definition name_matches :: "string \<Rightarrow> string \<Rightarrow> bool" where
  "name_matches q n = contains (map lower q) (map lower n)"

fun matches :: "query \<Rightarrow> product \<Rightarrow> bool" where
  "matches (Name_regex_i q) p = name_matches q (product_name p)"
| "matches (SalePrice_gt_lte lo hi) p =
     (case salePrice p of None \<Rightarrow> False | Some s \<Rightarrow> lo < s \<and> s \<le> hi)"
| "matches (SalePrice_eq n) p = (salePrice p = Some n)"
| "matches SalePrice_missing p = (salePrice p = None)"
| "matches (Price_lte m) p = (price p \<le> m)"
| "matches (Q_or qs) p = list_ex (\<lambda>q. matches q p) qs"
| "matches (Q_and qs) p = list_all (\<lambda>q. matches q p) qs"

text \<open>A document matches the filter when it matches every key the filter has.\<close>

definition doc_matches :: "filter_doc \<Rightarrow> product \<Rightarrow> bool" where
  "doc_matches f p =
     ((case f_or f of None \<Rightarrow> True | Some qs \<Rightarrow> list_ex (\<lambda>q. matches q p) qs)
      \<and> (case f_category f of None \<Rightarrow> True | Some c \<Rightarrow> category p = Some c))"

text \<open>
  The sort: \<^verbatim>\<open>{ _id: -1 }\<close>, or by price, ascending or descending, then \<^verbatim>\<open>_id\<close> descending.
\<close>

definition sort_products :: "string \<Rightarrow> product list \<Rightarrow> product list" where
  "sort_products priceFilter ps =
     (if priceFilter = ''low-to-high'' then sort_key (\<lambda>p. (price p, - int (oid p))) ps
      else if priceFilter = ''high-to-low'' then sort_key (\<lambda>p. (- price p, - int (oid p))) ps
      else sort_key (\<lambda>p. - int (oid p)) ps)"

text \<open>
  The three counts of the summary. \<^verbatim>\<open>{ quantity: { $gt: 0 } }\<close> and \<^verbatim>\<open>{ quantity: 0 }\<close> need
  the field. \<^verbatim>\<open>{ salePrice: { $ne: 0 }, $expr: { $lt: ["$salePrice", "$price"] } }\<close> also
  holds of a document without \<^verbatim>\<open>salePrice\<close>: \<^verbatim>\<open>$ne\<close> accepts a missing field, and in an
  expression a missing value sorts below every number.
\<close>

definition in_stock :: "product \<Rightarrow> bool" where
  "in_stock p = (case quantity p of None \<Rightarrow> False | Some n \<Rightarrow> 0 < n)"

definition out_of_stock :: "product \<Rightarrow> bool" where
  "out_of_stock p = (quantity p = Some 0)"

definition is_discounted :: "product \<Rightarrow> bool" where
  "is_discounted p = (case salePrice p of None \<Rightarrow> True | Some s \<Rightarrow> s \<noteq> 0 \<and> s < price p)"

record summary =
  inStock :: nat
  outOfStock :: nat
  discounted :: nat

text \<open>
  The body of a successful list response. \<open>resp_items\<close> are the documents of the page; in
  the JSON each one also carries \<^verbatim>\<open>id\<close>, the string form of its \<^verbatim>\<open>_id\<close>.
\<close>

record list_response =
  resp_items :: "product list"
  resp_total :: nat
  resp_page :: int
  resp_limit :: int
  resp_totalPages :: int
  resp_summary :: summary

text \<open>
  \<^verbatim>\<open>GET\<close> over the collection \<open>catalog\<close>. \<^verbatim>\<open>Math.ceil(total / limit)\<close> is written with
  integer division; \<open>limit\<close> is at least 1.
\<close>

definition list_products :: "product list \<Rightarrow> list_request \<Rightarrow> list_response" where
  "list_products catalog rq =
     (let page = max 1 (case page_param rq of None \<Rightarrow> 1 | Some n \<Rightarrow> n);
          limit = min 100 (max 1 (case limit_param rq of None \<Rightarrow> 12 | Some n \<Rightarrow> n));
          q = param_text (q_param rq);
          priceFilter = param_text (priceFilter_param rq);
          maxPrice = maxPrice_param rq;
          cat = param_text (category_param rq);
          flt = build_filter q cat maxPrice;
          found = filter (doc_matches flt) catalog;
          total = length found;
          rawItems = take (nat limit) (drop (nat ((page - 1) * limit))
                       (sort_products priceFilter found))
      in \<lparr>resp_items = rawItems,
          resp_total = total,
          resp_page = page,
          resp_limit = limit,
          resp_totalPages = max 1 ((int total + limit - 1) div limit),
          resp_summary = \<lparr>inStock = length (filter in_stock catalog),
                           outOfStock = length (filter out_of_stock catalog),
                           discounted = length (filter is_discounted catalog)\<rparr>\<rparr>)"


text \<open>A stored product with a name, a price, a sale price and a quantity.\<close>

definition sample_product :: "nat \<Rightarrow> string \<Rightarrow> int \<Rightarrow> int option \<Rightarrow> int option \<Rightarrow> product" where
  "sample_product i n p s k =
     \<lparr>oid = i, product_name = n, description = ''d'', brand = None, product_id = None,
      images = [], price = p, salePrice = s, stock = k, quantity = k, category = Some ''hair'',
      variants = []\<rparr>"

text \<open>A list request with a text query and a maximal price, and nothing else.\<close>

definition sample_request :: "string option \<Rightarrow> int option \<Rightarrow> list_request" where
  "sample_request q m =
     \<lparr>page_param = None, limit_param = None, q_param = q, category_param = None,
      priceFilter_param = None, maxPrice_param = m\<rparr>"

text \<open>The effective price of a variant, as the data model defines it.\<close>

definition effective :: "variant \<Rightarrow> int" where
  "effective v = (if promotional_price v > 0 then promotional_price v else variant_price v)"

text \<open>A variant with a price, a promotional price, a stock and a visibility.\<close>

definition sample_variant :: "int \<Rightarrow> int \<Rightarrow> int \<Rightarrow> bool \<Rightarrow> variant" where
  "sample_variant p promo st vis =
     \<lparr>variant_id = 0, sku = ''sku'', label = ''label'', color = ''color'', variant_price = p,
      promotional_price = promo, effective_price = 0, stock_total = st, image_url = [],
      visible = vis, weight = 0\<rparr>"

text \<open>A create request with the given variants and the top-level price 999.\<close>

definition sample_data :: "variant list option \<Rightarrow> product_data" where
  "sample_data vs =
     \<lparr>pd_name = ''Shampoo'', pd_description = ''Shampoo 500 ml'', pd_price = Some 999,
      pd_brand = [], pd_product_id = None, pd_images = None, pd_category = ''hair'',
      pd_variants = vs\<rparr>"

text \<open>What a response of \<^verbatim>\<open>POST\<close> stores as price and sale price, stock and quantity.\<close>

definition stored_summary :: "product response \<Rightarrow> (int \<times> int option \<times> int option \<times> int option) option" where
  "stored_summary r =
     (case r of Created201 p \<Rightarrow> Some (price p, salePrice p, stock p, quantity p) | _ \<Rightarrow> None)"

text \<open>An update request with the given variants and the top-level price 999.\<close>

definition sample_update :: "variant list option \<Rightarrow> update_data" where
  "sample_update vs =
     \<lparr>ud_name = None, ud_description = None, ud_category = None, ud_price = Some 999,
      ud_salePrice = None, ud_stock = None, ud_quantity = None, ud_variants = vs\<rparr>"


section \<open>Product detail page\<close>

text \<open>Decimal digits, and \<^verbatim>\<open>String(n)\<close> for an integer \<open>n\<close>, as a template literal prints it.\<close>

definition digit_char :: "nat \<Rightarrow> char" where
  "digit_char d = ''0123456789'' ! d"

fun show_nat :: "nat \<Rightarrow> string" where
  "show_nat n = (if n < 10 then [digit_char n] else show_nat (n div 10) @ [digit_char (n mod 10)])"

declare show_nat.simps [simp del]

definition show_int :: "int \<Rightarrow> string" where
  "show_int i = (if i < 0 then CHR ''-'' # show_nat (nat (- i)) else show_nat (nat i))"

text \<open>Reading decimal digits back, used to show that printing loses nothing.\<close>

definition digit_val :: "char \<Rightarrow> nat" where
  "digit_val c = length (takeWhile (\<lambda>d. d \<noteq> c) ''0123456789'')"

definition read_nat :: "string \<Rightarrow> nat" where
  "read_nat s = foldl (\<lambda>a c. 10 * a + digit_val c) 0 s"

text \<open>The product as the page holds it (\<^verbatim>\<open>IProduct\<close>): the fields the handler reads.\<close>

record page_product =
  pp_id :: string
  pp_name :: string
  pp_price :: int
  pp_variants :: "variant list option"

text \<open>\<^verbatim>\<open>product?.variants?.[selectedVariant]\<close>: an index out of range gives \<^verbatim>\<open>undefined\<close>.\<close>

definition selectedVariantData :: "page_product option \<Rightarrow> nat \<Rightarrow> variant option" where
  "selectedVariantData product selectedVariant =
     (case product of
        None \<Rightarrow> None
      | Some pr \<Rightarrow>
          (case pp_variants pr of
             None \<Rightarrow> None
           | Some vs \<Rightarrow> if selectedVariant < length vs then Some (vs ! selectedVariant) else None))"

text \<open>\<^verbatim>\<open>selectedVariantData?.stock_total || 0\<close>\<close>

definition availableStock :: "page_product option \<Rightarrow> nat \<Rightarrow> int" where
  "availableStock product selectedVariant =
     (case selectedVariantData product selectedVariant of
        None \<Rightarrow> 0
      | Some v \<Rightarrow> js_or (stock_total v) 0)"

text \<open>
  What a click on the button does: nothing, an error toast, or a call of the cart store's
  \<^verbatim>\<open>addItem(item, quantity)\<close> followed by a success toast. The page's state \<^verbatim>\<open>quantity\<close> is the
  argument \<open>wanted\<close> of the handler.
\<close>

datatype add_outcome =
    Nothing_done
  | Toast_error string
  | Add_item cart_item int string

definition handleAddToCart :: "page_product option \<Rightarrow> nat \<Rightarrow> int \<Rightarrow> add_outcome" where
  "handleAddToCart product selectedVariant wanted =
     (case product of
        None \<Rightarrow> Nothing_done
      | Some pr \<Rightarrow>
          (case selectedVariantData product selectedVariant of
             None \<Rightarrow> Nothing_done
           | Some v \<Rightarrow>
               if availableStock product selectedVariant = 0 then Toast_error ''Producto agotado''
               else if wanted > availableStock product selectedVariant then
                 Toast_error (''Solo hay '' @ show_int (availableStock product selectedVariant)
                              @ '' unidades disponibles'')
               else
                 Add_item
                   \<lparr>item_id = pp_id pr @ ''-'' @ show_int (variant_id v),
                    item_name = pp_name pr @ '' - Color '' @ show_int (int selectedVariant + 1),
                    item_price = pp_price pr,
                    item_image = (if image_url v \<noteq> [] then image_url v else ''/placeholder.svg''),
                    item_stock = Some (availableStock product selectedVariant),
                    item_quantity = None,
                    item_quantityToAdd = None\<rparr>
                   wanted
                   (show_int wanted @ '' producto(s) agregado(s) al carrito'')))"

text \<open>A product page with three variants, of ids 11, 12 and 13 and stocks 0, 4 and 2.\<close>

definition sample_page :: page_product where
  "sample_page =
     \<lparr>pp_id = ''p1'', pp_name = ''Shampoo'', pp_price = 10,
      pp_variants = Some [(sample_variant 10 0 0 True)\<lparr>variant_id := 11\<rparr>,
                          (sample_variant 10 0 4 True)\<lparr>variant_id := 12\<rparr>,
                          (sample_variant 10 0 2 True)\<lparr>variant_id := 13\<rparr>]\<rparr>"

text \<open>The id and the quantity that a click hands to \<^verbatim>\<open>addItem\<close>, when it does.\<close>

definition added_line :: "add_outcome \<Rightarrow> (string \<times> int) option" where
  "added_line r = (case r of Add_item item n msg \<Rightarrow> Some (item_id item, n) | _ \<Rightarrow> None)"

subsection \<open>Samples and readers for the properties of the catalog and the page\<close>

text \<open>
  A database for the examples: it holds one product under the id \<open>p1\<close>, and
  \<^verbatim>\<open>findByIdAndUpdate\<close> sets the fields that the patch defines and returns the document.
\<close>

definition set_fields :: "update_data \<Rightarrow> product \<Rightarrow> product" where
  "set_fields patch p =
     p\<lparr>product_name := (case ud_name patch of None \<Rightarrow> product_name p | Some x \<Rightarrow> x),
       description := (case ud_description patch of None \<Rightarrow> description p | Some x \<Rightarrow> x),
       category := (case ud_category patch of None \<Rightarrow> category p | Some x \<Rightarrow> Some x),
       price := (case ud_price patch of None \<Rightarrow> price p | Some x \<Rightarrow> x),
       salePrice := (case ud_salePrice patch of None \<Rightarrow> salePrice p | Some x \<Rightarrow> Some x),
       stock := (case ud_stock patch of None \<Rightarrow> stock p | Some x \<Rightarrow> Some x),
       quantity := (case ud_quantity patch of None \<Rightarrow> quantity p | Some x \<Rightarrow> Some x),
       variants := (case ud_variants patch of None \<Rightarrow> variants p | Some x \<Rightarrow> x)\<rparr>"

definition sample_db :: "string \<Rightarrow> update_data \<Rightarrow> product option" where
  "sample_db ident patch =
     (if ident = ''p1''
      then Some (set_fields patch (sample_product 1 ''Shampoo'' 999 (Some 999) (Some 0)))
      else None)"

text \<open>What a response of \<^verbatim>\<open>PUT\<close> returns as price and sale price, stock and quantity.\<close>

definition updated_summary :: "product response \<Rightarrow> (int \<times> int option \<times> int option \<times> int option) option" where
  "updated_summary r =
     (case r of Ok200 p \<Rightarrow> Some (price p, salePrice p, stock p, quantity p) | _ \<Rightarrow> None)"



text \<open>
  Two different variants that carry the same id 5, as a create request may send them, and
  the page of the product stored from them.
\<close>

definition twin_variants :: "variant list" where
  "twin_variants =
     [(sample_variant 10 0 4 True)\<lparr>variant_id := 5, sku := ''red'', color := ''red''\<rparr>,
      (sample_variant 10 0 2 True)\<lparr>variant_id := 5, sku := ''blue'', color := ''blue''\<rparr>]"

definition twin_page :: page_product where
  "twin_page =
     \<lparr>pp_id = ''p1'', pp_name = ''Shampoo'', pp_price = 10,
      pp_variants = Some (processVariants (\<lambda>k. 7) twin_variants)\<rparr>"

text \<open>
  A cart with two lines of the id \<open>x\<close>: a line with stock 1 at quantity 1, then the line
  that the remote cart gives for \<open>x\<close>.
\<close>

definition mixed_cart :: cart_state where
  "mixed_cart =
     \<lparr>items = (line_a 1 1)\<lparr>item_id := ''x''\<rparr> # transformApiCartToCartItems [api_line ''x'' 2]\<rparr>"

section \<open>Properties of the cart reducer\<close>

lemma and_gt_Some: "and_gt (Some S) n = (S \<noteq> 0 \<and> S < n)"
  by (simp add: and_gt_def)


lemma and_gt_None: "and_gt None n = False"
  by (simp add: and_gt_def)

lemma and_lt_None: "and_lt None n = False"
  by (simp add: and_lt_def)

lemma map_quantity_ids: "map item_id (map_quantity i n xs) = map item_id xs"
  by (induction xs) (simp_all add: map_quantity_def)

lemma find_id_Some:
  "find (\<lambda>l. item_id l = i) xs = Some e \<Longrightarrow> e \<in> set xs \<and> item_id e = i"
  by (induction xs) (auto split: if_splits)

lemma find_id_None:
  "find (\<lambda>l. item_id l = i) xs = None \<Longrightarrow> i \<notin> item_id ` set xs"
  by (induction xs) (auto split: if_splits)

lemma within_stock_map_quantity_list:
  "list_all (\<lambda>l. item_id l \<noteq> i \<or> (item_stock l = Some S \<and> qty l \<le> S)) xs \<Longrightarrow> n \<le> S \<Longrightarrow>
   list_all (\<lambda>l. item_id l \<noteq> i \<or> (item_stock l = Some S \<and> qty l \<le> S)) (map_quantity i n xs)"
  by (induction xs) (simp_all add: map_quantity_def qty_def nullish0_def)

lemma within_stock_map_quantity:
  "within_stock i S s \<Longrightarrow> n \<le> S \<Longrightarrow> within_stock i S (s\<lparr>items := map_quantity i n (items s)\<rparr>)"
  using within_stock_map_quantity_list [of i S "items s" n] by (simp add: within_stock_def)

lemma within_stock_step:
  assumes inv: "within_stock i S s" and S: "S \<noteq> 0"
    and p: "item_id p = i" "item_stock p = Some S"
  shows "within_stock i S (cartReducer s (ADD_ITEM p n))"
proof (cases "find (\<lambda>l. item_id l = item_id p) (items s)")
  case None
  show ?thesis
  proof (cases "S < n")
    case True
    with None inv p S show ?thesis by (simp add: and_gt_Some)
  next
    case False
    with None inv p S show ?thesis
      by (simp add: and_gt_Some within_stock_def qty_def nullish0_def)
  qed
next
  case (Some e)
  then have e: "e \<in> set (items s)" "item_id e = i"
    using find_id_Some [of "item_id p" "items s" e] p by auto
  with inv have st: "item_stock e = Some S"
    by (auto simp: within_stock_def list_all_iff)
  show ?thesis
  proof (cases "S < nullish0 (item_quantity e) + n")
    case True
    with Some st S inv show ?thesis by (simp add: and_gt_Some)
  next
    case False
    then have "nullish0 (item_quantity e) + n \<le> S" by simp
    from within_stock_map_quantity [OF inv this] Some st S False p show ?thesis
      by (simp add: and_gt_Some)
  qed
qed

lemma within_stock_add_all:
  "within_stock i S s \<Longrightarrow> S \<noteq> 0 \<Longrightarrow>
   list_all (\<lambda>(p, n). item_id p = i \<and> item_stock p = Some S) acts \<Longrightarrow>
   within_stock i S (add_all s acts)"
proof (induction acts arbitrary: s)
  case Nil
  then show ?case by (simp add: add_all_def)
next
  case (Cons a acts)
  obtain p n where a: "a = (p, n)" by (cases a)
  from Cons.prems a have pa: "item_id p = i" "item_stock p = Some S"
    by simp_all
  have "within_stock i S (cartReducer s (ADD_ITEM p n))"
    by (rule within_stock_step [OF Cons.prems(1) Cons.prems(2) pa])
  with Cons.IH [of "cartReducer s (ADD_ITEM p n)"] Cons.prems a show ?case
    by (simp add: add_all_def)
qed

text \<open>
  C1 (amended). Take a stock \<open>S\<close> other than 0 and a state in which every line with id
  \<open>i\<close> carries stock \<open>S\<close> and a quantity of at most \<open>S\<close> (in particular a state with no such
  line). After any run of \<^verbatim>\<open>ADD_ITEM\<close> actions whose payloads have id \<open>i\<close> and stock \<open>S\<close>,
  every line with id \<open>i\<close> still has a quantity of at most \<open>S\<close>. A single \<^verbatim>\<open>ADD_ITEM\<close>
  whose new quantity (the existing quantity plus \<^verbatim>\<open>quantityToAdd\<close>, or \<^verbatim>\<open>quantityToAdd\<close> for
  a fresh line) exceeds a non-zero \<open>S\<close> returns the state unchanged.
\<close>

theorem add_item_respects_stock:
  "(S \<noteq> 0 \<and> within_stock i S s
      \<and> list_all (\<lambda>(p, n). item_id p = i \<and> item_stock p = Some S) acts \<longrightarrow>
      (\<forall>l \<in> set (items (add_all s acts)). item_id l = i \<longrightarrow> qty l \<le> S))
   \<and> (S \<noteq> 0 \<and> find (\<lambda>l. item_id l = item_id p) (items s) = Some e
        \<and> item_stock e = Some S \<and> S < qty e + n \<longrightarrow>
      cartReducer s (ADD_ITEM p n) = s)
   \<and> (S \<noteq> 0 \<and> find (\<lambda>l. item_id l = item_id p) (items s) = None
        \<and> item_stock p = Some S \<and> S < n \<longrightarrow>
      cartReducer s (ADD_ITEM p n) = s)"
proof (intro conjI impI)
  assume "S \<noteq> 0 \<and> within_stock i S s
      \<and> list_all (\<lambda>(p, n). item_id p = i \<and> item_stock p = Some S) acts"
  then have "within_stock i S (add_all s acts)"
    by (simp add: within_stock_add_all)
  then show "\<forall>l \<in> set (items (add_all s acts)). item_id l = i \<longrightarrow> qty l \<le> S"
    by (auto simp: within_stock_def list_all_iff)
next
  assume "S \<noteq> 0 \<and> find (\<lambda>l. item_id l = item_id p) (items s) = Some e
        \<and> item_stock e = Some S \<and> S < qty e + n"
  then show "cartReducer s (ADD_ITEM p n) = s"
    by (simp add: and_gt_Some qty_def)
next
  assume "S \<noteq> 0 \<and> find (\<lambda>l. item_id l = item_id p) (items s) = None
        \<and> item_stock p = Some S \<and> S < n"
  then show "cartReducer s (ADD_ITEM p n) = s"
    by (simp add: and_gt_Some)
qed

text \<open>
  C1 as stated fails in two ways. A stock of 0 is defined but falsy, so it bounds nothing:
  on the empty cart, adding 1 of an item with stock 0 stores a line of quantity 1. And the
  claim ranges over every state: a line already above its stock (quantity 5, stock 3) is
  still above it after a rejected \<^verbatim>\<open>ADD_ITEM\<close>.
\<close>

theorem add_item_stock_counterexample:
  "map (\<lambda>l. (item_stock l, qty l)) (items (cartReducer \<lparr>items = []\<rparr> (ADD_ITEM (payload_a 0) 1)))
     = [(Some 0, 1)]
   \<and> map (\<lambda>l. (item_stock l, qty l)) (items (add_all \<lparr>items = [line_a 5 3]\<rparr> [(payload_a 3, 1)]))
     = [(Some 3, 5)]"
  by (simp add: payload_a_def line_a_def add_all_def and_gt_def qty_def nullish0_def)

text \<open>
  The scenario of the specification: stock 3, add 2, add 2 again (rejected); then the two
  single rejections, on an existing line and on a fresh one.
\<close>

theorem add_item_respects_stock_witness:
  "map qty (items (add_all \<lparr>items = []\<rparr> [(payload_a 3, 2), (payload_a 3, 2)])) = [2]
   \<and> cartReducer \<lparr>items = [line_a 2 3]\<rparr> (ADD_ITEM (payload_a 3) 2) = \<lparr>items = [line_a 2 3]\<rparr>
   \<and> cartReducer \<lparr>items = []\<rparr> (ADD_ITEM (payload_a 3) 4) = \<lparr>items = []\<rparr>"
proof -
  let ?acts = "[(payload_a 3, 2), (payload_a 3, 2)]"
  have run: "map qty (items (add_all \<lparr>items = []\<rparr> ?acts)) = [2]"
    by (simp add: payload_a_def add_all_def and_gt_def qty_def nullish0_def map_quantity_def)
  have h1: "(3::int) \<noteq> 0 \<and> within_stock ''a'' 3 \<lparr>items = []\<rparr>
      \<and> list_all (\<lambda>(p, n). item_id p = ''a'' \<and> item_stock p = Some 3) ?acts"
    by (simp add: within_stock_def payload_a_def)
  have h2: "(3::int) \<noteq> 0
      \<and> find (\<lambda>l. item_id l = item_id (payload_a 3)) (items \<lparr>items = [line_a 2 3]\<rparr>) = Some (line_a 2 3)
      \<and> item_stock (line_a 2 3) = Some 3 \<and> 3 < qty (line_a 2 3) + 2"
    by (simp add: payload_a_def line_a_def qty_def nullish0_def)
  have h3: "(3::int) \<noteq> 0
      \<and> find (\<lambda>l. item_id l = item_id (payload_a 3)) (items \<lparr>items = []\<rparr>) = None
      \<and> item_stock (payload_a 3) = Some 3 \<and> (3::int) < 4"
    by (simp add: payload_a_def)
  from add_item_respects_stock [where S = 3 and i = "''a''" and s = "\<lparr>items = []\<rparr>" and acts = ?acts] h1
  have a: "\<forall>l \<in> set (items (add_all \<lparr>items = []\<rparr> ?acts)). item_id l = ''a'' \<longrightarrow> qty l \<le> 3"
    by blast
  from add_item_respects_stock [where S = 3 and s = "\<lparr>items = [line_a 2 3]\<rparr>" and p = "payload_a 3"
      and e = "line_a 2 3" and n = 2] h2
  have b: "cartReducer \<lparr>items = [line_a 2 3]\<rparr> (ADD_ITEM (payload_a 3) 2) = \<lparr>items = [line_a 2 3]\<rparr>"
    by blast
  from add_item_respects_stock [where S = 3 and s = "\<lparr>items = []\<rparr>" and p = "payload_a 3" and n = 4] h3
  have c: "cartReducer \<lparr>items = []\<rparr> (ADD_ITEM (payload_a 3) 4) = \<lparr>items = []\<rparr>"
    by blast
  from run a b c show ?thesis by blast
qed



lemma line_ok_update:
  "line_ok (l\<lparr>item_quantity := Some n\<rparr>) = (0 < n \<and> \<not> and_gt (item_stock l) n)"
  by (cases "item_stock l") (auto simp: line_ok_def qty_def nullish0_def and_gt_def)

lemma lines_ok_map_quantity:
  "list_all line_ok xs \<Longrightarrow> 0 < n \<Longrightarrow>
   list_all (\<lambda>l. item_id l \<noteq> i \<or> \<not> and_gt (item_stock l) n) xs \<Longrightarrow>
   list_all line_ok (map_quantity i n xs)"
  by (induction xs) (simp_all add: map_quantity_def line_ok_update)

lemma unique_target:
  assumes "distinct (map item_id xs)" and "find (\<lambda>l. item_id l = i) xs = Some e"
    and "l \<in> set xs" and "item_id l = i"
  shows "l = e"
proof -
  from assms(2) have "e \<in> set xs" "item_id e = i"
    using find_id_Some [of i xs e] by simp_all
  with assms(1,3,4) show ?thesis
    by (metis distinct_map inj_on_def)
qed

lemma target_guard:
  assumes "distinct (map item_id xs)" and "find (\<lambda>l. item_id l = i) xs = Some e"
    and "\<not> and_gt (item_stock e) n"
  shows "list_all (\<lambda>l. item_id l \<noteq> i \<or> \<not> and_gt (item_stock l) n) xs"
  unfolding list_all_iff
proof
  fix l assume "l \<in> set xs"
  show "item_id l \<noteq> i \<or> \<not> and_gt (item_stock l) n"
  proof (cases "item_id l = i")
    case True
    with unique_target [OF assms(1,2) \<open>l \<in> set xs\<close>] assms(3) show ?thesis by simp
  next
    case False
    then show ?thesis by simp
  qed
qed

lemma add_item_keeps_lines_ok:
  assumes ok: "cart_lines_ok s" and u: "unique_ids s" and n: "0 < n"
  shows "cart_lines_ok (cartReducer s (ADD_ITEM p n)) \<and> unique_ids (cartReducer s (ADD_ITEM p n))"
proof (cases "find (\<lambda>l. item_id l = item_id p) (items s)")
  case None
  then have fresh: "item_id p \<notin> item_id ` set (items s)"
    by (rule find_id_None)
  show ?thesis
  proof (cases "and_gt (item_stock p) n")
    case True
    with None ok u show ?thesis by simp
  next
    case False
    have "line_ok (p\<lparr>item_quantity := Some n, item_quantityToAdd := Some n\<rparr>)"
      using False n by (cases "item_stock p") (auto simp: line_ok_def qty_def nullish0_def and_gt_def)
    with None False ok u fresh show ?thesis
      by (simp add: cart_lines_ok_def unique_ids_def)
  qed
next
  case (Some e)
  let ?q = "nullish0 (item_quantity e) + n"
  show ?thesis
  proof (cases "and_gt (item_stock e) ?q")
    case True
    with Some ok u show ?thesis by simp
  next
    case False
    from Some have "e \<in> set (items s)"
      using find_id_Some [of "item_id p" "items s" e] by simp
    with ok have "0 < qty e"
      by (auto simp: cart_lines_ok_def list_all_iff line_ok_def)
    with n have pos: "0 < ?q" by (simp add: qty_def)
    from u have d: "distinct (map item_id (items s))" by (simp add: unique_ids_def)
    have "list_all line_ok (map_quantity (item_id p) ?q (items s))"
      using ok pos target_guard [OF d Some False]
      by (simp add: cart_lines_ok_def lines_ok_map_quantity)
    with Some False d show ?thesis
      by (simp add: cart_lines_ok_def unique_ids_def map_quantity_ids)
  qed
qed

lemma remove_keeps_lines_ok:
  assumes ok: "cart_lines_ok s" and u: "unique_ids s"
  shows "cart_lines_ok (s\<lparr>items := filter (\<lambda>l. item_id l \<noteq> i) (items s)\<rparr>)
       \<and> unique_ids (s\<lparr>items := filter (\<lambda>l. item_id l \<noteq> i) (items s)\<rparr>)"
  using assms by (simp add: cart_lines_ok_def unique_ids_def list_all_iff distinct_map_filter)

lemma update_keeps_lines_ok:
  assumes ok: "cart_lines_ok s" and u: "unique_ids s"
    and bound: "\<And>e S. find (\<lambda>l. item_id l = i) (items s) = Some e \<Longrightarrow> item_stock e = Some S
                  \<Longrightarrow> S \<noteq> 0 \<Longrightarrow> 0 < m \<Longrightarrow> m \<le> S"
  shows "cart_lines_ok (cartReducer s (UPDATE_QUANTITY i m)) \<and> unique_ids (cartReducer s (UPDATE_QUANTITY i m))"
proof (cases "m \<le> 0")
  case True
  with remove_keeps_lines_ok [OF ok u, of i] show ?thesis by simp
next
  case False
  then have m: "0 < m" by simp
  show ?thesis
  proof (cases "find (\<lambda>l. item_id l = i) (items s)")
    case None
    with False ok u show ?thesis by simp
  next
    case (Some e)
    from u have d: "distinct (map item_id (items s))" by (simp add: unique_ids_def)
    have guard: "\<not> and_gt (item_stock e) m"
      using bound [OF Some _ _ m] by (cases "item_stock e") (auto simp: and_gt_def)
    have "list_all line_ok (map_quantity i m (items s))"
      using ok m target_guard [OF d Some guard]
      by (simp add: cart_lines_ok_def lines_ok_map_quantity)
    then have upd: "cart_lines_ok (s\<lparr>items := map_quantity i m (items s)\<rparr>)
        \<and> unique_ids (s\<lparr>items := map_quantity i m (items s)\<rparr>)"
      using d by (simp add: cart_lines_ok_def unique_ids_def map_quantity_ids)
    from Some False upd ok u show ?thesis by simp
  qed
qed

text \<open>
  C3 (amended). On a cart whose line ids are unique and whose lines satisfy the invariant
  (positive quantity, at most the stock when the stock is defined and non-zero), these
  actions give a cart with unique ids that satisfies it again: \<^verbatim>\<open>ADD_ITEM\<close> with a positive
  \<^verbatim>\<open>quantityToAdd\<close>, \<^verbatim>\<open>REMOVE_ITEM\<close>, \<^verbatim>\<open>CLEAR_CART\<close>, and \<^verbatim>\<open>UPDATE_QUANTITY\<close> whose new
  quantity is at most 0 or does not exceed the defined, non-zero stock of the line it
  targets.
\<close>

theorem reducer_keeps_invariant:
  "cart_lines_ok s \<and> unique_ids s \<longrightarrow>
     (0 < n \<longrightarrow> cart_lines_ok (cartReducer s (ADD_ITEM p n)) \<and> unique_ids (cartReducer s (ADD_ITEM p n)))
   \<and> cart_lines_ok (cartReducer s (REMOVE_ITEM i)) \<and> unique_ids (cartReducer s (REMOVE_ITEM i))
   \<and> ((\<forall>e S. find (\<lambda>l. item_id l = i) (items s) = Some e \<and> item_stock e = Some S \<and> S \<noteq> 0 \<and> 0 < m
              \<longrightarrow> m \<le> S) \<longrightarrow>
        cart_lines_ok (cartReducer s (UPDATE_QUANTITY i m)) \<and> unique_ids (cartReducer s (UPDATE_QUANTITY i m)))
   \<and> cart_lines_ok (cartReducer s CLEAR_CART) \<and> unique_ids (cartReducer s CLEAR_CART)"
proof (intro impI)
  assume a: "cart_lines_ok s \<and> unique_ids s"
  then have ok: "cart_lines_ok s" and u: "unique_ids s" by simp_all
  have add: "0 < n \<longrightarrow> cart_lines_ok (cartReducer s (ADD_ITEM p n)) \<and> unique_ids (cartReducer s (ADD_ITEM p n))"
    using add_item_keeps_lines_ok [OF ok u] by blast
  have rem: "cart_lines_ok (cartReducer s (REMOVE_ITEM i)) \<and> unique_ids (cartReducer s (REMOVE_ITEM i))"
    using remove_keeps_lines_ok [OF ok u, of i] by simp
  have upd: "(\<forall>e S. find (\<lambda>l. item_id l = i) (items s) = Some e \<and> item_stock e = Some S \<and> S \<noteq> 0 \<and> 0 < m
              \<longrightarrow> m \<le> S) \<longrightarrow>
        cart_lines_ok (cartReducer s (UPDATE_QUANTITY i m)) \<and> unique_ids (cartReducer s (UPDATE_QUANTITY i m))"
  proof
    assume b: "\<forall>e S. find (\<lambda>l. item_id l = i) (items s) = Some e \<and> item_stock e = Some S \<and> S \<noteq> 0 \<and> 0 < m
              \<longrightarrow> m \<le> S"
    show "cart_lines_ok (cartReducer s (UPDATE_QUANTITY i m)) \<and> unique_ids (cartReducer s (UPDATE_QUANTITY i m))"
      by (rule update_keeps_lines_ok [OF ok u]) (use b in blast)
  qed
  have clr: "cart_lines_ok (cartReducer s CLEAR_CART) \<and> unique_ids (cartReducer s CLEAR_CART)"
    by (simp add: cart_lines_ok_def unique_ids_def)
  from add rem upd clr
  show "(0 < n \<longrightarrow> cart_lines_ok (cartReducer s (ADD_ITEM p n)) \<and> unique_ids (cartReducer s (ADD_ITEM p n)))
   \<and> cart_lines_ok (cartReducer s (REMOVE_ITEM i)) \<and> unique_ids (cartReducer s (REMOVE_ITEM i))
   \<and> ((\<forall>e S. find (\<lambda>l. item_id l = i) (items s) = Some e \<and> item_stock e = Some S \<and> S \<noteq> 0 \<and> 0 < m
              \<longrightarrow> m \<le> S) \<longrightarrow>
        cart_lines_ok (cartReducer s (UPDATE_QUANTITY i m)) \<and> unique_ids (cartReducer s (UPDATE_QUANTITY i m)))
   \<and> cart_lines_ok (cartReducer s CLEAR_CART) \<and> unique_ids (cartReducer s CLEAR_CART)"
    by blast
qed

text \<open>
  C3 as stated fails: the line of quantity 1 and stock 3 satisfies the invariant, and
  \<^verbatim>\<open>UPDATE_QUANTITY\<close> to 5 is applied, leaving quantity 5 over stock 3. It also fails on a
  cart with two lines of one id: \<^verbatim>\<open>ADD_ITEM\<close> checks the first line's stock (10) and writes
  the new quantity 2 into both, the second of stock 1.
\<close>

theorem reducer_invariant_counterexample:
  "cart_lines_ok \<lparr>items = [line_a 1 3]\<rparr> \<and> unique_ids \<lparr>items = [line_a 1 3]\<rparr>
   \<and> \<not> cart_lines_ok (cartReducer \<lparr>items = [line_a 1 3]\<rparr> (UPDATE_QUANTITY ''a'' 5))
   \<and> cart_lines_ok \<lparr>items = [line_a 1 10, line_a 1 1]\<rparr>
   \<and> \<not> cart_lines_ok (cartReducer \<lparr>items = [line_a 1 10, line_a 1 1]\<rparr> (ADD_ITEM (payload_a 10) 1))"
  by (simp add: cart_lines_ok_def unique_ids_def line_ok_def line_a_def payload_a_def qty_def
      nullish0_def and_lt_def and_gt_def map_quantity_def)

text \<open>The four actions on the cart holding the line of quantity 1 and stock 3.\<close>

theorem reducer_keeps_invariant_witness:
  "cart_lines_ok (cartReducer \<lparr>items = [line_a 1 3]\<rparr> (ADD_ITEM (payload_a 3) 2))
   \<and> unique_ids (cartReducer \<lparr>items = [line_a 1 3]\<rparr> (ADD_ITEM (payload_a 3) 2))
   \<and> cart_lines_ok (cartReducer \<lparr>items = [line_a 1 3]\<rparr> (REMOVE_ITEM ''a''))
   \<and> cart_lines_ok (cartReducer \<lparr>items = [line_a 1 3]\<rparr> (UPDATE_QUANTITY ''a'' 3))
   \<and> unique_ids (cartReducer \<lparr>items = [line_a 1 3]\<rparr> (UPDATE_QUANTITY ''a'' 3))
   \<and> cart_lines_ok (cartReducer \<lparr>items = [line_a 1 3]\<rparr> CLEAR_CART)"
proof -
  let ?s = "\<lparr>items = [line_a 1 3]\<rparr>"
  have h: "cart_lines_ok ?s \<and> unique_ids ?s"
    by (simp add: cart_lines_ok_def unique_ids_def line_ok_def line_a_def qty_def nullish0_def)
  have n: "(0::int) < 2" by simp
  have b: "\<forall>e S. find (\<lambda>l. item_id l = ''a'') (items ?s) = Some e \<and> item_stock e = Some S
             \<and> S \<noteq> 0 \<and> (0::int) < 3 \<longrightarrow> 3 \<le> S"
    by (simp add: line_a_def)
  from reducer_keeps_invariant [where s = ?s and n = 2 and p = "payload_a 3" and i = "''a''" and m = 3]
    h n b
  show ?thesis by blast
qed

lemma transform_stock: "l \<in> set (transformApiCartToCartItems api) \<Longrightarrow> item_stock l = None"
  by (auto simp: transformApiCartToCartItems_def)

lemma getCart_shape:
  "getCartFromApi w fetch cid = [] \<or>
   (\<exists>ps. getCartFromApi w fetch cid = transformApiCartToCartItems ps)"
  by (auto simp: getCartFromApi_def split: fetch_result.splits json_body.splits option.splits)

lemma getCart_stock:
  assumes "l \<in> set (getCartFromApi w fetch cid)"
  shows "item_stock l = None"
proof -
  from getCart_shape [of w fetch cid] assms
  obtain ps where "l \<in> set (transformApiCartToCartItems ps)" by auto
  then show ?thesis by (rule transform_stock)
qed

lemma find_distinct:
  "distinct (map item_id xs) \<Longrightarrow> e \<in> set xs \<Longrightarrow> find (\<lambda>l. item_id l = item_id e) xs = Some e"
  by (induction xs) auto

lemma map_quantity_mem:
  "e \<in> set xs \<Longrightarrow> e\<lparr>item_quantity := Some n\<rparr> \<in> set (map_quantity (item_id e) n xs)"
  by (induction xs) (auto simp: map_quantity_def)

lemma find_in_set:
  "l \<in> set xs \<Longrightarrow> \<exists>e. find (\<lambda>x. item_id x = item_id l) xs = Some e"
  by (induction xs) auto

text \<open>
  C10 (amended). Every line made by \<^verbatim>\<open>transformApiCartToCartItems\<close>, hence every line
  returned by \<^verbatim>\<open>getCartFromApi\<close>, has no stock. When the line that \<^verbatim>\<open>ADD_ITEM\<close> finds for the
  payload's id, the first line of that id in the cart, is such a line, the stock guard is
  false for every new quantity and the action is applied: the lines of that id get the
  found line's quantity plus \<^verbatim>\<open>quantityToAdd\<close>. That is the case for every such line of a
  cart with unique ids, and for every line of a cart that has just been set from the
  remote cart, whatever ids it repeats.
\<close>

theorem hydrated_line_add_always_applied:
  "(\<forall>l \<in> set (transformApiCartToCartItems api). item_stock l = None)
   \<and> (\<forall>l \<in> set (getCartFromApi w fetch cid). item_stock l = None)
   \<and> (find (\<lambda>l. item_id l = item_id p) (items s) = Some e
        \<and> e \<in> set (transformApiCartToCartItems api) \<longrightarrow>
      \<not> and_gt (item_stock e) m
      \<and> cartReducer s (ADD_ITEM p n) = s\<lparr>items := map_quantity (item_id p) (qty e + n) (items s)\<rparr>)
   \<and> (distinct (map item_id (items s)) \<and> e \<in> set (items s)
        \<and> e \<in> set (transformApiCartToCartItems api) \<and> item_id p = item_id e \<longrightarrow>
      e\<lparr>item_quantity := Some (qty e + n)\<rparr> \<in> set (items (cartReducer s (ADD_ITEM p n))))
   \<and> (l \<in> set (transformApiCartToCartItems api) \<and> item_id p = item_id l \<longrightarrow>
      (\<exists>e. e \<in> set (transformApiCartToCartItems api) \<and> item_id e = item_id l
         \<and> cartReducer (cartReducer s (SET_CART (transformApiCartToCartItems api))) (ADD_ITEM p n)
             = \<lparr>items = map_quantity (item_id p) (qty e + n) (transformApiCartToCartItems api)\<rparr>))"
proof (intro conjI impI ballI)
  fix l assume "l \<in> set (transformApiCartToCartItems api)"
  then show "item_stock l = None" by (rule transform_stock)
next
  fix l assume "l \<in> set (getCartFromApi w fetch cid)"
  then show "item_stock l = None" by (rule getCart_stock)
next
  assume a: "find (\<lambda>l. item_id l = item_id p) (items s) = Some e
        \<and> e \<in> set (transformApiCartToCartItems api)"
  then have st: "item_stock e = None" by (blast intro: transform_stock)
  then show "\<not> and_gt (item_stock e) m" by (simp add: and_gt_None)
  from a st show "cartReducer s (ADD_ITEM p n) = s\<lparr>items := map_quantity (item_id p) (qty e + n) (items s)\<rparr>"
    by (simp add: and_gt_None qty_def Let_def)
next
  assume a: "distinct (map item_id (items s)) \<and> e \<in> set (items s)
        \<and> e \<in> set (transformApiCartToCartItems api) \<and> item_id p = item_id e"
  then have f: "find (\<lambda>l. item_id l = item_id p) (items s) = Some e"
    by (simp add: find_distinct)
  from a have "item_stock e = None" by (blast intro: transform_stock)
  with f a map_quantity_mem [of e "items s" "qty e + n"]
  show "e\<lparr>item_quantity := Some (qty e + n)\<rparr> \<in> set (items (cartReducer s (ADD_ITEM p n)))"
    by (simp add: and_gt_None qty_def Let_def)
next
  let ?xs = "transformApiCartToCartItems api"
  assume a: "l \<in> set ?xs \<and> item_id p = item_id l"
  then obtain e where f: "find (\<lambda>x. item_id x = item_id p) ?xs = Some e"
    using find_in_set [of l ?xs] by auto
  then have e: "e \<in> set ?xs" "item_id e = item_id p"
    using find_id_Some [of "item_id p" ?xs e] by simp_all
  then have st: "item_stock e = None" by (blast intro: transform_stock)
  from f st have "cartReducer (cartReducer s (SET_CART ?xs)) (ADD_ITEM p n)
             = \<lparr>items = map_quantity (item_id p) (qty e + n) ?xs\<rparr>"
    by (simp add: and_gt_None qty_def Let_def)
  with e a show "\<exists>e. e \<in> set ?xs \<and> item_id e = item_id l
         \<and> cartReducer (cartReducer s (SET_CART ?xs)) (ADD_ITEM p n)
             = \<lparr>items = map_quantity (item_id p) (qty e + n) ?xs\<rparr>"
    by auto
qed

text \<open>
  C10 as stated fails in a cart that holds an earlier line of the same id with a stock:
  the cart has a line \<open>x\<close> of stock 1 at quantity 1 and then the hydrated line \<open>x\<close>; adding 1
  to \<open>x\<close> is rejected on the first line's stock and the cart stays as it was.
\<close>

theorem hydrated_line_rejected_counterexample:
  "map item_id (items mixed_cart) = [''x'', ''x'']
   \<and> map item_stock (items mixed_cart) = [Some 1, None]
   \<and> set (transformApiCartToCartItems [api_line ''x'' 2]) \<subseteq> set (items mixed_cart)
   \<and> cartReducer mixed_cart (ADD_ITEM ((payload_a 1)\<lparr>item_id := ''x''\<rparr>) 1) = mixed_cart"
  by (simp add: mixed_cart_def line_a_def payload_a_def api_line_def
      transformApiCartToCartItems_def and_gt_def nullish0_def)

text \<open>
  A hydrated line of quantity 2 receives 1000 more; so do both lines of a cart set from a
  remote cart that repeats the id.
\<close>

theorem hydrated_line_add_always_applied_witness:
  "map item_stock (transformApiCartToCartItems [api_line ''x'' 2]) = [None]
   \<and> map qty (items (cartReducer \<lparr>items = transformApiCartToCartItems [api_line ''x'' 2]\<rparr>
         (ADD_ITEM ((payload_a 3)\<lparr>item_id := ''x''\<rparr>) 1000))) = [1002]
   \<and> map qty (items (cartReducer (cartReducer mixed_cart (SET_CART (transformApiCartToCartItems
         [api_line ''x'' 2, api_line ''x'' 7]))) (ADD_ITEM ((payload_a 3)\<lparr>item_id := ''x''\<rparr>) 1000)))
       = [1002, 1002]"
proof -
  let ?api = "[api_line ''x'' 2]"
  let ?api2 = "[api_line ''x'' 2, api_line ''x'' 7]"
  let ?s = "\<lparr>items = transformApiCartToCartItems ?api\<rparr>"
  let ?p = "(payload_a 3)\<lparr>item_id := ''x''\<rparr>"
  let ?e = "hd (transformApiCartToCartItems ?api)"
  have h: "find (\<lambda>l. item_id l = item_id ?p) (items ?s) = Some ?e
      \<and> ?e \<in> set (transformApiCartToCartItems ?api)"
    by (simp add: transformApiCartToCartItems_def api_line_def payload_a_def)
  have h2: "distinct (map item_id (items ?s)) \<and> ?e \<in> set (items ?s)
      \<and> ?e \<in> set (transformApiCartToCartItems ?api) \<and> item_id ?p = item_id ?e"
    by (simp add: transformApiCartToCartItems_def api_line_def payload_a_def)
  from hydrated_line_add_always_applied [where api = ?api and s = ?s and p = ?p and e = ?e and n = 1000] h h2
  have "cartReducer ?s (ADD_ITEM ?p 1000) = ?s\<lparr>items := map_quantity (item_id ?p) (qty ?e + 1000) (items ?s)\<rparr>"
    and "\<forall>l \<in> set (transformApiCartToCartItems ?api). item_stock l = None"
    by blast+
  then have c1: "map item_stock (transformApiCartToCartItems ?api) = [None]
      \<and> map qty (items (cartReducer ?s (ADD_ITEM ?p 1000))) = [1002]"
    by (simp add: transformApiCartToCartItems_def api_line_def payload_a_def map_quantity_def
        qty_def nullish0_def)
  let ?l = "hd (transformApiCartToCartItems ?api2)"
  have h3: "?l \<in> set (transformApiCartToCartItems ?api2) \<and> item_id ?p = item_id ?l"
    by (simp add: transformApiCartToCartItems_def api_line_def payload_a_def)
  from hydrated_line_add_always_applied [where api = ?api2 and s = mixed_cart and p = ?p and l = ?l
      and n = 1000] h3
  obtain e where e: "e \<in> set (transformApiCartToCartItems ?api2)"
    and r: "cartReducer (cartReducer mixed_cart (SET_CART (transformApiCartToCartItems ?api2))) (ADD_ITEM ?p 1000)
             = \<lparr>items = map_quantity (item_id ?p) (qty e + 1000) (transformApiCartToCartItems ?api2)\<rparr>"
    by blast
  have "map qty (items (cartReducer (cartReducer mixed_cart (SET_CART (transformApiCartToCartItems ?api2)))
      (ADD_ITEM ?p 1000))) = [1002, 1002]"
    by (simp add: transformApiCartToCartItems_def api_line_def payload_a_def map_quantity_def
        qty_def nullish0_def and_gt_def)
  with c1 r show ?thesis by blast
qed

section \<open>Properties of the cart API bridge\<close>

text \<open>
  C7. \<^verbatim>\<open>getCartFromApi\<close>: with status 200 or 404 and a \<^verbatim>\<open>products\<close> array in the body, the
  result has one line per product, with the id kept, the title as name, the unit price as
  price, the quantity kept and a missing image as the empty string; a body without
  products gives the empty list; any other status, a rejected fetch, a body that does not
  parse, and a call outside the browser give the empty list as well.
\<close>

theorem remote_cart_fetch:
  "(fetch (cart_url cid) = Response st (Body (Some ps)) \<and> (st = 200 \<or> st = 404) \<longrightarrow>
      map item_id (getCartFromApi True fetch cid) = map api_id ps
      \<and> map item_name (getCartFromApi True fetch cid) = map title ps
      \<and> map item_price (getCartFromApi True fetch cid) = map unit_price ps
      \<and> map item_quantity (getCartFromApi True fetch cid) = map (\<lambda>a. Some (api_quantity a)) ps
      \<and> map item_image (getCartFromApi True fetch cid)
          = map (\<lambda>a. case api_image a of None \<Rightarrow> [] | Some u \<Rightarrow> u) ps)
   \<and> (fetch (cart_url cid) = Response st (Body None) \<and> (st = 200 \<or> st = 404) \<longrightarrow>
      getCartFromApi True fetch cid = [])
   \<and> (fetch (cart_url cid) = Response st b \<and> st \<noteq> 200 \<and> st \<noteq> 404 \<longrightarrow>
      getCartFromApi True fetch cid = [])
   \<and> (fetch (cart_url cid) = NetworkFailure \<longrightarrow> getCartFromApi True fetch cid = [])
   \<and> (fetch (cart_url cid) = Response st ParseFailure \<longrightarrow> getCartFromApi True fetch cid = [])
   \<and> getCartFromApi False fetch cid = []"
proof (intro conjI impI)
  assume a: "fetch (cart_url cid) = Response st (Body (Some ps)) \<and> (st = 200 \<or> st = 404)"
  then have r: "getCartFromApi True fetch cid = transformApiCartToCartItems ps"
    by (cases ps) (auto simp: getCartFromApi_def cart_url_def transformApiCartToCartItems_def)
  show "map item_id (getCartFromApi True fetch cid) = map api_id ps"
    by (simp add: r transformApiCartToCartItems_def comp_def)
  show "map item_name (getCartFromApi True fetch cid) = map title ps"
    by (simp add: r transformApiCartToCartItems_def comp_def)
  show "map item_price (getCartFromApi True fetch cid) = map unit_price ps"
    by (simp add: r transformApiCartToCartItems_def comp_def)
  show "map item_quantity (getCartFromApi True fetch cid) = map (\<lambda>a. Some (api_quantity a)) ps"
    by (simp add: r transformApiCartToCartItems_def comp_def)
  show "map item_image (getCartFromApi True fetch cid)
          = map (\<lambda>a. case api_image a of None \<Rightarrow> [] | Some u \<Rightarrow> u) ps"
    by (simp add: r transformApiCartToCartItems_def comp_def)
next
  assume "fetch (cart_url cid) = Response st (Body None) \<and> (st = 200 \<or> st = 404)"
  then show "getCartFromApi True fetch cid = []"
    by (auto simp: getCartFromApi_def cart_url_def)
next
  assume "fetch (cart_url cid) = Response st b \<and> st \<noteq> 200 \<and> st \<noteq> 404"
  then show "getCartFromApi True fetch cid = []"
    by (cases b) (auto simp: getCartFromApi_def cart_url_def)
next
  assume "fetch (cart_url cid) = NetworkFailure"
  then show "getCartFromApi True fetch cid = []"
    by (simp add: getCartFromApi_def cart_url_def)
next
  assume "fetch (cart_url cid) = Response st ParseFailure"
  then show "getCartFromApi True fetch cid = []"
    by (simp add: getCartFromApi_def cart_url_def)
next
  show "getCartFromApi False fetch cid = []"
    by (simp add: getCartFromApi_def)
qed

text \<open>One product under status 404, and one input for each way to the empty list.\<close>

theorem remote_cart_fetch_witness:
  "map item_id (getCartFromApi True (\<lambda>u. Response 404 (Body (Some [api_line ''x'' 2]))) ''c1'') = [''x'']
   \<and> map item_image (getCartFromApi True (\<lambda>u. Response 404 (Body (Some [api_line ''x'' 2]))) ''c1'') = [[]]
   \<and> getCartFromApi True (\<lambda>u. Response 200 (Body None)) ''c1'' = []
   \<and> getCartFromApi True (\<lambda>u. Response 500 (Body (Some [api_line ''x'' 2]))) ''c1'' = []
   \<and> getCartFromApi True (\<lambda>u. NetworkFailure) ''c1'' = []
   \<and> getCartFromApi True (\<lambda>u. Response 200 ParseFailure) ''c1'' = []"
proof -
  let ?ps = "[api_line ''x'' 2]"
  have "(\<lambda>u. Response 404 (Body (Some ?ps))) (cart_url ''c1'') = Response 404 (Body (Some ?ps))
      \<and> ((404::int) = 200 \<or> (404::int) = 404)"
    by simp
  with remote_cart_fetch [where fetch = "\<lambda>u. Response 404 (Body (Some ?ps))" and cid = "''c1''"
      and st = 404 and ps = ?ps]
  have c1: "map item_id (getCartFromApi True (\<lambda>u. Response 404 (Body (Some ?ps))) ''c1'') = [''x'']"
    and c2: "map item_image (getCartFromApi True (\<lambda>u. Response 404 (Body (Some ?ps))) ''c1'') = [[]]"
    by (simp_all add: api_line_def)
  have "(\<lambda>u. Response 200 (Body None)) (cart_url ''c1'') = Response 200 (Body None)
      \<and> ((200::int) = 200 \<or> (200::int) = 404)"
    by simp
  with remote_cart_fetch [where fetch = "\<lambda>u. Response 200 (Body None)" and cid = "''c1''" and st = 200]
  have c3: "getCartFromApi True (\<lambda>u. Response 200 (Body None)) ''c1'' = []"
    by blast
  have "(\<lambda>u. Response 500 (Body (Some ?ps))) (cart_url ''c1'') = Response 500 (Body (Some ?ps))
      \<and> (500::int) \<noteq> 200 \<and> (500::int) \<noteq> 404"
    by simp
  with remote_cart_fetch [where fetch = "\<lambda>u. Response 500 (Body (Some ?ps))" and cid = "''c1''"
      and st = 500 and b = "Body (Some ?ps)"]
  have c4: "getCartFromApi True (\<lambda>u. Response 500 (Body (Some ?ps))) ''c1'' = []"
    by blast
  from remote_cart_fetch [where fetch = "\<lambda>u. NetworkFailure" and cid = "''c1''"]
  have c5: "getCartFromApi True (\<lambda>u. NetworkFailure) ''c1'' = []"
    by blast
  from remote_cart_fetch [where fetch = "\<lambda>u. Response 200 ParseFailure" and cid = "''c1''" and st = 200]
  have c6: "getCartFromApi True (\<lambda>u. Response 200 ParseFailure) ''c1'' = []"
    by blast
  from c1 c2 c3 c4 c5 c6 show ?thesis by blast
qed

section \<open>Properties of the variant aggregation\<close>

lemma processed_prices_enum:
  "map (\<lambda>v. js_or (effective_price v) (variant_price v))
       (map (\<lambda>(k, v). process_variant (g k) v) (enumerate n vs)) = map effective vs"
  by (induction vs arbitrary: n) (simp_all add: process_variant_def js_or_def effective_def)

lemma processed_prices:
  "map (\<lambda>v. js_or (effective_price v) (variant_price v)) (processVariants g vs) = map effective vs"
  unfolding processVariants_def by (rule processed_prices_enum)

lemma processed_stock_enum:
  "map stock_total (map (\<lambda>(k, v). process_variant (g k) v) (enumerate n vs)) = map stock_total vs"
  by (induction vs arbitrary: n) (simp_all add: process_variant_def)

lemma foldl_stock:
  "foldl (\<lambda>sum v. sum + js_or (stock_total v) 0) a xs = a + sum_list (map stock_total xs)"
  by (induction xs arbitrary: a) (simp_all add: js_or_def)

lemma totalStock_sum: "totalStock (processVariants g vs) = sum_list (map stock_total vs)"
proof -
  have "totalStock (processVariants g vs) = sum_list (map stock_total (processVariants g vs))"
    by (simp add: totalStock_def foldl_stock)
  then show ?thesis unfolding processVariants_def processed_stock_enum .
qed

lemma Math_min_Min: "Math_min x xs = Min (set (x # xs))"
  unfolding Math_min_def by (rule Min.set_eq_fold [symmetric])

lemma minPrice_nonempty:
  "vs \<noteq> [] \<Longrightarrow> minPrice (processVariants g vs) fb = Some (Min (effective ` set vs))"
proof -
  assume "vs \<noteq> []"
  then obtain x xs where e: "map effective vs = x # xs" by (cases vs) auto
  then have "set (x # xs) = effective ` set vs" by (metis set_map)
  with e show ?thesis
    by (simp add: minPrice_def processed_prices Math_min_Min del: set_simps)
qed

lemma minPrice_empty: "minPrice (processVariants g []) fb = fb"
  by (simp add: minPrice_def processVariants_def)

lemma POST_created:
  assumes "POST session generated new_oid db_ok pd = Created201 p"
    and "vs = (case pd_variants pd of None \<Rightarrow> [] | Some ws \<Rightarrow> ws)"
  shows "\<exists>top. pd_price pd = Some top
      \<and> price p = (case minPrice (processVariants generated vs) (Some top) of None \<Rightarrow> top | Some m \<Rightarrow> m)
      \<and> salePrice p = Some (price p)
      \<and> stock p = Some (totalStock (processVariants generated vs))
      \<and> quantity p = stock p"
proof -
  from assms(1) obtain top where top: "pd_price pd = Some top"
    by (cases "pd_price pd") (simp_all add: POST_def split: if_splits)
  have pv: "(case pd_variants pd of None \<Rightarrow> [] | Some ws \<Rightarrow> processVariants generated ws)
      = processVariants generated vs"
    using assms(2) by (cases "pd_variants pd") (simp_all add: processVariants_def)
  from assms(1) top show ?thesis
    unfolding POST_def pv Let_def by (auto split: if_splits)
qed

lemma aggregate_update_Some:
  "ud_variants ud = Some vs \<Longrightarrow>
   aggregate_update generated ud =
      ud\<lparr>ud_variants := Some (processVariants generated vs),
         ud_stock := Some (totalStock (processVariants generated vs)),
         ud_quantity := Some (totalStock (processVariants generated vs)),
         ud_price := minPrice (processVariants generated vs) (ud_price ud),
         ud_salePrice := minPrice (processVariants generated vs) (ud_price ud)\<rparr>"
  by (simp add: aggregate_update_def Let_def)

lemma aggregate_update_spec:
  "ud_variants ud = Some vs \<Longrightarrow>
   aggregate_update generated ud =
      ud\<lparr>ud_variants := Some (processVariants generated vs),
         ud_stock := Some (sum_list (map stock_total vs)),
         ud_quantity := Some (sum_list (map stock_total vs)),
         ud_price := (if vs = [] then ud_price ud else Some (Min (effective ` set vs))),
         ud_salePrice := (if vs = [] then ud_price ud else Some (Min (effective ` set vs)))\<rparr>"
  by (cases "vs = []") (simp_all add: aggregate_update_Some totalStock_sum minPrice_nonempty minPrice_empty)

text \<open>
  C4. A product created by \<^verbatim>\<open>POST\<close> from the variants \<open>vs\<close> has, when \<open>vs\<close> is not empty, the
  least effective price of \<open>vs\<close> as its price (the effective price being the promotional
  price when that is positive and the price otherwise), and the request's top-level price
  when \<open>vs\<close> is empty; its stock is the sum of the \<^verbatim>\<open>stock_total\<close> of \<open>vs\<close>; its sale price is its
  price and its quantity is its stock; an authorized request with a name, a description and
  a price is answered with such a product. An authorized \<^verbatim>\<open>PUT\<close> whose patch carries the variants
  \<open>vs\<close> answers with what the database returns for the patch in which these four fields
  are set the same way, the fallback for an empty \<open>vs\<close> being the patch's own price; that
  patch is the handler's aggregation of the request's patch.
\<close>

theorem aggregator_price_and_stock:
  "(POST session generated new_oid db_ok pd = Created201 p
      \<and> vs = (case pd_variants pd of None \<Rightarrow> [] | Some ws \<Rightarrow> ws) \<longrightarrow>
        (vs \<noteq> [] \<longrightarrow> price p = Min (effective ` set vs))
      \<and> (vs = [] \<longrightarrow> Some (price p) = pd_price pd)
      \<and> stock p = Some (sum_list (map stock_total vs))
      \<and> salePrice p = Some (price p) \<and> quantity p = stock p)
   \<and> (\<not> unauthorized session \<and> pd_name pd \<noteq> [] \<and> pd_description pd \<noteq> []
        \<and> pd_price pd \<noteq> None \<longrightarrow>
        (\<exists>created. POST session generated new_oid True pd = Created201 created))
   \<and> (\<not> unauthorized session \<and> ident \<noteq> [] \<and> ud_variants ud = Some vs \<longrightarrow>
        PUT session generated True findByIdAndUpdate ident ud =
          (case findByIdAndUpdate ident
                  (ud\<lparr>ud_variants := Some (processVariants generated vs),
                      ud_stock := Some (sum_list (map stock_total vs)),
                      ud_quantity := Some (sum_list (map stock_total vs)),
                      ud_price := (if vs = [] then ud_price ud
                                   else Some (Min (effective ` set vs))),
                      ud_salePrice := (if vs = [] then ud_price ud
                                       else Some (Min (effective ` set vs)))\<rparr>) of
             None \<Rightarrow> NotFound404
           | Some updatedProduct \<Rightarrow> Ok200 updatedProduct))
   \<and> (ud_variants ud = Some vs \<longrightarrow>
        (vs \<noteq> [] \<longrightarrow> ud_price (aggregate_update generated ud) = Some (Min (effective ` set vs)))
      \<and> (vs = [] \<longrightarrow> ud_price (aggregate_update generated ud) = ud_price ud)
      \<and> ud_stock (aggregate_update generated ud) = Some (sum_list (map stock_total vs))
      \<and> ud_salePrice (aggregate_update generated ud) = ud_price (aggregate_update generated ud)
      \<and> ud_quantity (aggregate_update generated ud) = ud_stock (aggregate_update generated ud))"
proof (intro conjI impI)
  assume a: "POST session generated new_oid db_ok pd = Created201 p
      \<and> vs = (case pd_variants pd of None \<Rightarrow> [] | Some ws \<Rightarrow> ws)"
  then obtain top where top: "pd_price pd = Some top"
    and pr: "price p = (case minPrice (processVariants generated vs) (Some top) of None \<Rightarrow> top | Some m \<Rightarrow> m)"
    and sp: "salePrice p = Some (price p)"
    and st: "stock p = Some (totalStock (processVariants generated vs))"
    and qu: "quantity p = stock p"
    using POST_created [of session generated new_oid db_ok pd p vs] by blast
  show "stock p = Some (sum_list (map stock_total vs))"
    by (simp add: st totalStock_sum)
  show "salePrice p = Some (price p)" by (rule sp)
  show "quantity p = stock p" by (rule qu)
  { assume "vs \<noteq> []"
    then show "price p = Min (effective ` set vs)"
      by (simp add: pr minPrice_nonempty) }
  { assume "vs = []"
    then show "Some (price p) = pd_price pd"
      by (simp add: pr minPrice_empty top) }
next
  assume "\<not> unauthorized session \<and> pd_name pd \<noteq> [] \<and> pd_description pd \<noteq> []
        \<and> pd_price pd \<noteq> None"
  then show "\<exists>created. POST session generated new_oid True pd = Created201 created"
    by (auto simp: POST_def Let_def)
next
  assume a: "\<not> unauthorized session \<and> ident \<noteq> [] \<and> ud_variants ud = Some vs"
  then have u: "ud_variants ud = Some vs" by simp
  from a show "PUT session generated True findByIdAndUpdate ident ud =
          (case findByIdAndUpdate ident
                  (ud\<lparr>ud_variants := Some (processVariants generated vs),
                      ud_stock := Some (sum_list (map stock_total vs)),
                      ud_quantity := Some (sum_list (map stock_total vs)),
                      ud_price := (if vs = [] then ud_price ud
                                   else Some (Min (effective ` set vs))),
                      ud_salePrice := (if vs = [] then ud_price ud
                                       else Some (Min (effective ` set vs)))\<rparr>) of
             None \<Rightarrow> NotFound404
           | Some updatedProduct \<Rightarrow> Ok200 updatedProduct)"
    unfolding PUT_def aggregate_update_spec [OF u] by simp
next
  assume u: "ud_variants ud = Some vs"
  note r = aggregate_update_Some [OF u, of generated]
  show "ud_stock (aggregate_update generated ud) = Some (sum_list (map stock_total vs))"
    by (simp add: r totalStock_sum)
  show "ud_salePrice (aggregate_update generated ud) = ud_price (aggregate_update generated ud)"
    by (simp add: r)
  show "ud_quantity (aggregate_update generated ud) = ud_stock (aggregate_update generated ud)"
    by (simp add: r)
  { assume "vs \<noteq> []"
    then show "ud_price (aggregate_update generated ud) = Some (Min (effective ` set vs))"
      by (simp add: r minPrice_nonempty) }
  { assume "vs = []"
    then show "ud_price (aggregate_update generated ud) = ud_price ud"
      by (simp add: r minPrice_empty) }
qed

lemma stored_summary_Created:
  "r = Created201 p \<Longrightarrow> stored_summary r = Some (price p, salePrice p, stock p, quantity p)"
  by (simp add: stored_summary_def)

lemma POST_sample:
  "POST (Some ''admin'') g n True (sample_data (Some vs)) =
     Created201 (case POST (Some ''admin'') g n True (sample_data (Some vs)) of Created201 p \<Rightarrow> p)"
  by (simp add: POST_def unauthorized_def sample_data_def Let_def)

text \<open>
  The scenario of the specification: variants of price 100 with promotion 80 and stock 5,
  and of price 120 without promotion and stock 0, give price 80 and stock 5, on create and
  on an update of the product \<open>p1\<close> of the sample database.
\<close>

theorem aggregator_price_and_stock_witness:
  "stored_summary (POST (Some ''admin'') (\<lambda>k. 7) 1 True
      (sample_data (Some [sample_variant 100 80 5 True, sample_variant 120 0 0 True])))
     = Some (80, Some 80, Some 5, Some 5)
   \<and> updated_summary (PUT (Some ''admin'') (\<lambda>k. 7) True sample_db ''p1''
        (sample_update (Some [sample_variant 100 80 5 True, sample_variant 120 0 0 True])))
     = Some (80, Some 80, Some 5, Some 5)
   \<and> ud_price (aggregate_update (\<lambda>k. 7)
        (sample_update (Some [sample_variant 100 80 5 True, sample_variant 120 0 0 True]))) = Some 80
   \<and> ud_stock (aggregate_update (\<lambda>k. 7)
        (sample_update (Some [sample_variant 100 80 5 True, sample_variant 120 0 0 True]))) = Some 5"
proof -
  let ?vs = "[sample_variant 100 80 5 True, sample_variant 120 0 0 True]"
  let ?r = "POST (Some ''admin'') (\<lambda>k. 7) 1 True (sample_data (Some ?vs))"
  let ?p = "case ?r of Created201 p \<Rightarrow> p"
  let ?ud = "sample_update (Some ?vs)"
  have h: "?r = Created201 ?p
      \<and> ?vs = (case pd_variants (sample_data (Some ?vs)) of None \<Rightarrow> [] | Some ws \<Rightarrow> ws)"
    using POST_sample [of "\<lambda>k. 7" 1 ?vs] by (simp add: sample_data_def)
  have ne: "?vs \<noteq> []" by simp
  have u: "ud_variants ?ud = Some ?vs" by (simp add: sample_update_def)
  have hp: "\<not> unauthorized (Some ''admin'') \<and> ''p1'' \<noteq> [] \<and> ud_variants ?ud = Some ?vs"
    by (simp add: unauthorized_def sample_update_def)
  have m: "Min (effective ` set ?vs) = 80" "sum_list (map stock_total ?vs) = 5"
    by (simp_all add: effective_def sample_variant_def)
  note inst = aggregator_price_and_stock [where session = "Some ''admin''" and generated = "\<lambda>k. 7"
      and new_oid = 1 and db_ok = True and pd = "sample_data (Some ?vs)" and p = ?p and vs = ?vs
      and ud = ?ud and ident = "''p1''" and findByIdAndUpdate = sample_db]
  from inst h ne u
  have "price ?p = Min (effective ` set ?vs)" "stock ?p = Some (sum_list (map stock_total ?vs))"
    "salePrice ?p = Some (price ?p)" "quantity ?p = stock ?p"
    "ud_price (aggregate_update (\<lambda>k. 7) ?ud) = Some (Min (effective ` set ?vs))"
    "ud_stock (aggregate_update (\<lambda>k. 7) ?ud) = Some (sum_list (map stock_total ?vs))"
    by blast+
  then have c: "price ?p = 80" "stock ?p = Some 5" "salePrice ?p = Some 80" "quantity ?p = Some 5"
    "ud_price (aggregate_update (\<lambda>k. 7) ?ud) = Some 80"
    "ud_stock (aggregate_update (\<lambda>k. 7) ?ud) = Some 5"
    by (simp_all only: m)
  have s: "stored_summary ?r = Some (price ?p, salePrice ?p, stock ?p, quantity ?p)"
    by (rule stored_summary_Created) (rule h [THEN conjunct1])
  from inst hp have "PUT (Some ''admin'') (\<lambda>k. 7) True sample_db ''p1'' ?ud =
      (case sample_db ''p1''
              (?ud\<lparr>ud_variants := Some (processVariants (\<lambda>k. 7) ?vs),
                    ud_stock := Some (sum_list (map stock_total ?vs)),
                    ud_quantity := Some (sum_list (map stock_total ?vs)),
                    ud_price := (if ?vs = [] then ud_price ?ud else Some (Min (effective ` set ?vs))),
                    ud_salePrice := (if ?vs = [] then ud_price ?ud else Some (Min (effective ` set ?vs)))\<rparr>) of
         None \<Rightarrow> NotFound404
       | Some updatedProduct \<Rightarrow> Ok200 updatedProduct)"
    by blast
  then have "updated_summary (PUT (Some ''admin'') (\<lambda>k. 7) True sample_db ''p1'' ?ud)
      = Some (80, Some 80, Some 5, Some 5)"
    by (simp only: m) (simp add: updated_summary_def sample_db_def set_fields_def)
  with c s show ?thesis by simp
qed

lemma effective_visible: "map effective (map (\<lambda>v. v\<lparr>visible := f v\<rparr>) vs) = map effective vs"
  by (simp add: effective_def)

lemma stock_visible: "map stock_total (map (\<lambda>v. v\<lparr>visible := f v\<rparr>) vs) = map stock_total vs"
  by simp

lemma minPrice_effective:
  "minPrice (processVariants g vs) fb =
     (case map effective vs of [] \<Rightarrow> fb | x # xs \<Rightarrow> Some (Math_min x xs))"
  by (simp add: minPrice_def processed_prices)

lemma minPrice_visible:
  "minPrice (processVariants g (map (\<lambda>v. v\<lparr>visible := f v\<rparr>) vs)) fb = minPrice (processVariants g vs) fb"
  unfolding minPrice_effective effective_visible ..

lemma totalStock_visible:
  "totalStock (processVariants g (map (\<lambda>v. v\<lparr>visible := f v\<rparr>) vs)) = totalStock (processVariants g vs)"
  unfolding totalStock_sum stock_visible ..

lemma stored_summary_POST:
  "stored_summary (POST session g n db pd) =
     (if unauthorized session \<or> pd_name pd = [] \<or> pd_description pd = [] \<or> \<not> db then None
      else (case pd_price pd of
              None \<Rightarrow> None
            | Some t \<Rightarrow>
                (let pv = (case pd_variants pd of None \<Rightarrow> [] | Some vs \<Rightarrow> processVariants g vs);
                     m = (case minPrice pv (Some t) of None \<Rightarrow> t | Some m \<Rightarrow> m)
                 in Some (m, Some m, Some (totalStock pv), Some (totalStock pv)))))"
  by (simp add: stored_summary_def POST_def Let_def split: option.splits)

text \<open>
  C6 (amended). The aggregation takes the least effective price over all variants,
  whatever their \<^verbatim>\<open>visible\<close> flag: rewriting the flags of the request's variants changes
  neither the stored price nor the stored stock, and the stored price is at most the
  effective price of every variant of the request, a hidden one included.
\<close>

theorem aggregator_ignores_visibility:
  "stored_summary (POST session g n db (pd\<lparr>pd_variants := Some (map (\<lambda>v. v\<lparr>visible := f v\<rparr>) vs)\<rparr>))
     = stored_summary (POST session g n db (pd\<lparr>pd_variants := Some vs\<rparr>))
   \<and> (POST session g n db (pd\<lparr>pd_variants := Some vs\<rparr>) = Created201 p \<and> v \<in> set vs \<longrightarrow>
        price p \<le> effective v)
   \<and> ud_price (aggregate_update g (ud\<lparr>ud_variants := Some (map (\<lambda>v. v\<lparr>visible := f v\<rparr>) vs)\<rparr>))
     = ud_price (aggregate_update g (ud\<lparr>ud_variants := Some vs\<rparr>))
   \<and> (v \<in> set vs \<longrightarrow>
        (\<exists>m. ud_price (aggregate_update g (ud\<lparr>ud_variants := Some vs\<rparr>)) = Some m \<and> m \<le> effective v))"
proof (intro conjI impI)
  show "stored_summary (POST session g n db (pd\<lparr>pd_variants := Some (map (\<lambda>v. v\<lparr>visible := f v\<rparr>) vs)\<rparr>))
     = stored_summary (POST session g n db (pd\<lparr>pd_variants := Some vs\<rparr>))"
    by (cases "pd_price pd")
      (simp_all add: stored_summary_POST minPrice_visible totalStock_visible Let_def)
next
  assume a: "POST session g n db (pd\<lparr>pd_variants := Some vs\<rparr>) = Created201 p \<and> v \<in> set vs"
  then have ne: "vs \<noteq> []" by auto
  from a POST_created [of session g n db "pd\<lparr>pd_variants := Some vs\<rparr>" p vs]
  obtain top where "price p = (case minPrice (processVariants g vs) (Some top) of None \<Rightarrow> top | Some m \<Rightarrow> m)"
    by auto
  with ne have "price p = Min (effective ` set vs)" by (simp add: minPrice_nonempty)
  with a show "price p \<le> effective v" by simp
next
  show "ud_price (aggregate_update g (ud\<lparr>ud_variants := Some (map (\<lambda>v. v\<lparr>visible := f v\<rparr>) vs)\<rparr>))
     = ud_price (aggregate_update g (ud\<lparr>ud_variants := Some vs\<rparr>))"
    by (simp add: aggregate_update_Some minPrice_visible)
next
  assume a: "v \<in> set vs"
  then have ne: "vs \<noteq> []" by auto
  then have "ud_price (aggregate_update g (ud\<lparr>ud_variants := Some vs\<rparr>)) = Some (Min (effective ` set vs))"
    by (simp add: aggregate_update_Some minPrice_nonempty)
  with a show "\<exists>m. ud_price (aggregate_update g (ud\<lparr>ud_variants := Some vs\<rparr>)) = Some m \<and> m \<le> effective v"
    by simp
qed

text \<open>
  C6 as stated fails: with a visible variant of price 100 and a hidden one of price 50, the
  only visible effective price is 100, and the product is stored at 50, on create and on
  update.
\<close>

theorem aggregator_visibility_counterexample:
  "stored_summary (POST (Some ''admin'') (\<lambda>k. 7) 1 True
      (sample_data (Some [sample_variant 100 0 5 True, sample_variant 50 0 5 False])))
     = Some (50, Some 50, Some 10, Some 10)
   \<and> map effective (filter visible [sample_variant 100 0 5 True, sample_variant 50 0 5 False]) = [100]
   \<and> ud_price (aggregate_update (\<lambda>k. 7)
        (sample_update (Some [sample_variant 100 0 5 True, sample_variant 50 0 5 False]))) = Some 50"
  by (simp add: stored_summary_POST sample_data_def sample_update_def sample_variant_def
      unauthorized_def aggregate_update_def processVariants_def process_variant_def
      minPrice_def Math_min_def totalStock_def js_or_def effective_def Let_def)

text \<open>The same two variants, all made visible: the stored price stays 50.\<close>

theorem aggregator_ignores_visibility_witness:
  "stored_summary (POST (Some ''admin'') (\<lambda>k. 7) 1 True
      (sample_data (Some (map (\<lambda>v. v\<lparr>visible := True\<rparr>)
         [sample_variant 100 0 5 True, sample_variant 50 0 5 False]))))
     = Some (50, Some 50, Some 10, Some 10)
   \<and> price (case POST (Some ''admin'') (\<lambda>k. 7) 1 True
        (sample_data (Some [sample_variant 100 0 5 True, sample_variant 50 0 5 False]))
        of Created201 p \<Rightarrow> p) \<le> 50"
proof -
  let ?vs = "[sample_variant 100 0 5 True, sample_variant 50 0 5 False]"
  let ?r = "POST (Some ''admin'') (\<lambda>k. 7) 1 True (sample_data (Some ?vs))"
  let ?p = "case ?r of Created201 p \<Rightarrow> p"
  have sd: "\<And>ws. (sample_data None)\<lparr>pd_variants := Some ws\<rparr> = sample_data (Some ws)"
    by (simp add: sample_data_def)
  have h: "POST (Some ''admin'') (\<lambda>k. 7) 1 True ((sample_data None)\<lparr>pd_variants := Some ?vs\<rparr>) = Created201 ?p
      \<and> sample_variant 50 0 5 False \<in> set ?vs"
    using POST_sample [of "\<lambda>k. 7" 1 ?vs] by (simp add: sd)
  from aggregator_ignores_visibility [where session = "Some ''admin''" and g = "\<lambda>k. 7" and n = 1
      and db = True and pd = "sample_data None" and f = "\<lambda>v. True" and vs = ?vs and p = ?p
      and v = "sample_variant 50 0 5 False"] h
  have c1: "stored_summary (POST (Some ''admin'') (\<lambda>k. 7) 1 True
        ((sample_data None)\<lparr>pd_variants := Some (map (\<lambda>v. v\<lparr>visible := True\<rparr>) ?vs)\<rparr>))
      = stored_summary (POST (Some ''admin'') (\<lambda>k. 7) 1 True ((sample_data None)\<lparr>pd_variants := Some ?vs\<rparr>))"
    and c2: "price ?p \<le> effective (sample_variant 50 0 5 False)"
    by blast+
  have e: "stored_summary ?r = Some (50, Some 50, Some 10, Some 10)"
    by (simp add: stored_summary_POST sample_data_def sample_variant_def
      unauthorized_def processVariants_def process_variant_def
      minPrice_def Math_min_def totalStock_def js_or_def Let_def)
  from c1 e have "stored_summary (POST (Some ''admin'') (\<lambda>k. 7) 1 True
      (sample_data (Some (map (\<lambda>v. v\<lparr>visible := True\<rparr>) ?vs)))) = Some (50, Some 50, Some 10, Some 10)"
    by (simp only: sd)
  moreover from c2 have "price ?p \<le> 50"
    by (simp add: effective_def sample_variant_def)
  ultimately show ?thesis by blast
qed

section \<open>Properties of the listing\<close>

lemma lower_simps:
  "map lower ''zzz'' = ''zzz''" "map lower ''Shampoo'' = ''shampoo''"
  by code_simp+

text \<open>
  C5. The claim asks that, with a text query and \<^verbatim>\<open>maxPrice\<close> both given, every returned
  product matches the query by name. The handler puts the name condition under the
  filter's \<^verbatim>\<open>$or\<close> key and then assigns the price conditions to the same key, so the name
  condition is lost: the request with \<^verbatim>\<open>q=zzz\<close> and \<^verbatim>\<open>maxPrice=100\<close> returns the product named
  Shampoo, whose name does not contain \<open>zzz\<close>; with \<^verbatim>\<open>q=zzz\<close> alone nothing is returned.
\<close>

theorem text_query_dropped_by_maxPrice:
  "resp_items (list_products [sample_product 1 ''Shampoo'' 10 (Some 0) (Some 3)]
       (sample_request (Some ''zzz'') (Some 100)))
     = [sample_product 1 ''Shampoo'' 10 (Some 0) (Some 3)]
   \<and> \<not> name_matches ''zzz'' ''Shampoo''
   \<and> resp_items (list_products [sample_product 1 ''Shampoo'' 10 (Some 0) (Some 3)]
       (sample_request (Some ''zzz'') None)) = []"
proof (intro conjI)
  show nm: "\<not> name_matches ''zzz'' ''Shampoo''"
    unfolding name_matches_def lower_simps by simp
  show "resp_items (list_products [sample_product 1 ''Shampoo'' 10 (Some 0) (Some 3)]
       (sample_request (Some ''zzz'') (Some 100)))
     = [sample_product 1 ''Shampoo'' 10 (Some 0) (Some 3)]"
    by (simp add: list_products_def sample_request_def sample_product_def param_text_def
        trim_def is_space_def build_filter_def doc_matches_def sort_products_def Let_def)
  show "resp_items (list_products [sample_product 1 ''Shampoo'' 10 (Some 0) (Some 3)]
       (sample_request (Some ''zzz'') None)) = []"
    by (simp add: list_products_def sample_request_def sample_product_def param_text_def
        trim_def is_space_def build_filter_def doc_matches_def sort_products_def Let_def nm)
qed











section \<open>Properties of the product detail page\<close>

lemma digit_val_digit_char: "d < 10 \<Longrightarrow> digit_val (digit_char d) = d"
proof -
  assume "d < 10"
  then have "d \<in> {0, 1, 2, 3, 4, 5, 6, 7, 8, 9}" by auto
  then show ?thesis
    by (auto simp: digit_val_def digit_char_def)
qed

lemma digit_char_not_minus: "d < 10 \<Longrightarrow> digit_char d \<noteq> CHR ''-''"
proof -
  assume "d < 10"
  then have "d \<in> {0, 1, 2, 3, 4, 5, 6, 7, 8, 9}" by auto
  then show ?thesis
    by (auto simp: digit_char_def)
qed

lemma read_nat_snoc: "read_nat (s @ [c]) = 10 * read_nat s + digit_val c"
  by (simp add: read_nat_def)

lemma read_show_nat: "read_nat (show_nat n) = n"
proof (induction n rule: show_nat.induct)
  case (1 n)
  show ?case
  proof (cases "n < 10")
    case True
    then show ?thesis
      by (subst show_nat.simps) (simp add: read_nat_def digit_val_digit_char)
  next
    case False
    with 1 have "read_nat (show_nat (n div 10)) = n div 10" by simp
    with False show ?thesis
      by (subst show_nat.simps) (simp add: read_nat_snoc digit_val_digit_char)
  qed
qed

lemma show_nat_inj: "show_nat a = show_nat b \<Longrightarrow> a = b"
  by (metis read_show_nat)

lemma show_nat_hd: "\<exists>d ds. d < 10 \<and> show_nat n = digit_char d # ds"
proof (induction n rule: show_nat.induct)
  case (1 n)
  show ?case
  proof (cases "n < 10")
    case True
    then show ?thesis by (subst show_nat.simps) auto
  next
    case False
    with 1 obtain d ds where "d < 10" "show_nat (n div 10) = digit_char d # ds" by auto
    with False show ?thesis by (subst show_nat.simps) auto
  qed
qed

lemma show_nat_not_minus: "show_nat n \<noteq> CHR ''-'' # s"
proof
  assume e: "show_nat n = CHR ''-'' # s"
  from show_nat_hd [of n] obtain d ds where d: "d < 10" "show_nat n = digit_char d # ds" by blast
  with e have "digit_char d = CHR ''-''" by simp
  with digit_char_not_minus [OF d(1)] show False by simp
qed

lemma show_int_inj: "show_int a = show_int b \<Longrightarrow> a = b"
proof (cases "a < 0"; cases "b < 0")
  assume "show_int a = show_int b" "a < 0" "b < 0"
  then have "nat (- a) = nat (- b)" by (simp add: show_int_def show_nat_inj)
  with \<open>a < 0\<close> \<open>b < 0\<close> show ?thesis by simp
next
  assume "show_int a = show_int b" "a < 0" "\<not> b < 0"
  then have "show_nat (nat b) = CHR ''-'' # show_nat (nat (- a))" by (simp add: show_int_def)
  then show ?thesis using show_nat_not_minus by blast
next
  assume "show_int a = show_int b" "\<not> a < 0" "b < 0"
  then have "show_nat (nat a) = CHR ''-'' # show_nat (nat (- b))" by (simp add: show_int_def)
  then show ?thesis using show_nat_not_minus by blast
next
  assume "show_int a = show_int b" "\<not> a < 0" "\<not> b < 0"
  then have "nat a = nat b" by (simp add: show_int_def show_nat_inj)
  with \<open>\<not> a < 0\<close> \<open>\<not> b < 0\<close> show ?thesis by simp
qed

lemma handle_with_variant:
  assumes "selectedVariantData (Some pr) i = Some v"
  shows "handleAddToCart (Some pr) i q =
     (if stock_total v = 0 then Toast_error ''Producto agotado''
      else if stock_total v < q then
        Toast_error (''Solo hay '' @ show_int (stock_total v) @ '' unidades disponibles'')
      else Add_item
             \<lparr>item_id = pp_id pr @ ''-'' @ show_int (variant_id v),
              item_name = pp_name pr @ '' - Color '' @ show_int (int i + 1),
              item_price = pp_price pr,
              item_image = (if image_url v \<noteq> [] then image_url v else ''/placeholder.svg''),
              item_stock = Some (stock_total v),
              item_quantity = None,
              item_quantityToAdd = None\<rparr>
             q (show_int q @ '' producto(s) agregado(s) al carrito''))"
  using assms by (simp add: handleAddToCart_def availableStock_def js_or_def)

lemma twin_selected:
  "selectedVariantData (Some twin_page) 0 = Some (process_variant 7 (twin_variants ! 0))"
  "selectedVariantData (Some twin_page) 1 = Some (process_variant 7 (twin_variants ! 1))"
  by (simp_all add: selectedVariantData_def twin_page_def twin_variants_def processVariants_def)

lemma show_int_5: "show_int 5 = ''5''"
  by code_simp

text \<open>
  C8 (amended). \<^verbatim>\<open>handleAddToCart\<close> with a product loaded and a variant selected: when the
  variant's \<^verbatim>\<open>stock_total\<close> is 0 it reports that the product is sold out and does not call
  \<^verbatim>\<open>addItem\<close>; when the wanted quantity exceeds the stock it reports the units available and
  does not call \<^verbatim>\<open>addItem\<close>; otherwise it calls \<^verbatim>\<open>addItem\<close> with the wanted quantity and a
  line whose id is the product id, a dash and the variant id. The line ids of two variants
  of one product are equal exactly when their variant ids are equal.
\<close>

theorem add_to_cart_gesture:
  "(selectedVariantData (Some pr) i = Some v \<longrightarrow>
      (stock_total v = 0 \<longrightarrow> handleAddToCart (Some pr) i q = Toast_error ''Producto agotado'')
    \<and> (stock_total v \<noteq> 0 \<and> stock_total v < q \<longrightarrow>
         handleAddToCart (Some pr) i q =
           Toast_error (''Solo hay '' @ show_int (stock_total v) @ '' unidades disponibles''))
    \<and> (stock_total v \<noteq> 0 \<and> q \<le> stock_total v \<longrightarrow>
         (\<exists>item msg. handleAddToCart (Some pr) i q = Add_item item q msg
            \<and> item_id item = pp_id pr @ ''-'' @ show_int (variant_id v)
            \<and> item_stock item = Some (stock_total v))))
   \<and> (selectedVariantData (Some pr) i = Some v \<and> selectedVariantData (Some pr) j = Some w
        \<and> handleAddToCart (Some pr) i q = Add_item item1 q msg1
        \<and> handleAddToCart (Some pr) j q' = Add_item item2 q' msg2 \<longrightarrow>
      (item_id item1 = item_id item2) = (variant_id v = variant_id w))"
proof (intro conjI impI)
  assume s: "selectedVariantData (Some pr) i = Some v"
  { assume "stock_total v = 0"
    then show "handleAddToCart (Some pr) i q = Toast_error ''Producto agotado''"
      by (simp add: handle_with_variant [OF s]) }
  { assume "stock_total v \<noteq> 0 \<and> stock_total v < q"
    then show "handleAddToCart (Some pr) i q =
           Toast_error (''Solo hay '' @ show_int (stock_total v) @ '' unidades disponibles'')"
      by (simp add: handle_with_variant [OF s]) }
  { assume "stock_total v \<noteq> 0 \<and> q \<le> stock_total v"
    then show "\<exists>item msg. handleAddToCart (Some pr) i q = Add_item item q msg
            \<and> item_id item = pp_id pr @ ''-'' @ show_int (variant_id v)
            \<and> item_stock item = Some (stock_total v)"
      by (simp add: handle_with_variant [OF s]) }
next
  assume a: "selectedVariantData (Some pr) i = Some v \<and> selectedVariantData (Some pr) j = Some w
        \<and> handleAddToCart (Some pr) i q = Add_item item1 q msg1
        \<and> handleAddToCart (Some pr) j q' = Add_item item2 q' msg2"
  then have sv: "selectedVariantData (Some pr) i = Some v"
    and sw: "selectedVariantData (Some pr) j = Some w" by simp_all
  from a have 1: "item_id item1 = pp_id pr @ ''-'' @ show_int (variant_id v)"
    by (auto simp: handle_with_variant [OF sv] split: if_splits)
  from a have 2: "item_id item2 = pp_id pr @ ''-'' @ show_int (variant_id w)"
    by (auto simp: handle_with_variant [OF sw] split: if_splits)
  have "(show_int (variant_id v) = show_int (variant_id w)) = (variant_id v = variant_id w)"
    using show_int_inj [of "variant_id v" "variant_id w"] by auto
  with 1 2 show "(item_id item1 = item_id item2) = (variant_id v = variant_id w)" by simp
qed

text \<open>
  C8 as stated fails for two different variants that carry one variant id: the
  aggregation keeps the ids 5 and 5 that the request supplies, and the red and the blue
  variant are both added under the line id \<open>p1-5\<close>.
\<close>

theorem same_variant_id_counterexample:
  "map variant_id (processVariants (\<lambda>k. 7) twin_variants) = [5, 5]
   \<and> map color (processVariants (\<lambda>k. 7) twin_variants) = [''red'', ''blue'']
   \<and> added_line (handleAddToCart (Some twin_page) 0 1) = Some (''p1-5'', 1)
   \<and> added_line (handleAddToCart (Some twin_page) 1 1) = Some (''p1-5'', 1)"
proof (intro conjI)
  show "map variant_id (processVariants (\<lambda>k. 7) twin_variants) = [5, 5]"
    by (simp add: processVariants_def process_variant_def twin_variants_def js_or_def)
  show "map color (processVariants (\<lambda>k. 7) twin_variants) = [''red'', ''blue'']"
    by (simp add: processVariants_def process_variant_def twin_variants_def)
  show "added_line (handleAddToCart (Some twin_page) 0 1) = Some (''p1-5'', 1)"
    unfolding handle_with_variant [OF twin_selected(1)]
    by (simp add: added_line_def process_variant_def twin_variants_def sample_variant_def
        js_or_def show_int_5 twin_page_def)
  show "added_line (handleAddToCart (Some twin_page) 1 1) = Some (''p1-5'', 1)"
    unfolding handle_with_variant [OF twin_selected(2)]
    by (simp add: added_line_def process_variant_def twin_variants_def sample_variant_def
        js_or_def show_int_5 twin_page_def)
qed

lemma show_int_samples: "show_int 12 = ''12''" "show_int 13 = ''13''" "show_int 4 = ''4''"
  by code_simp+

text \<open>
  The sample page: the sold-out variant, 5 wanted of 4, and the lines \<open>p1-12\<close> and \<open>p1-13\<close>
  of the two variants in stock.
\<close>

theorem add_to_cart_gesture_witness:
  "handleAddToCart (Some sample_page) 0 1 = Toast_error ''Producto agotado''
   \<and> handleAddToCart (Some sample_page) 1 5 = Toast_error ''Solo hay 4 unidades disponibles''
   \<and> added_line (handleAddToCart (Some sample_page) 1 2) = Some (''p1-12'', 2)
   \<and> added_line (handleAddToCart (Some sample_page) 2 1) = Some (''p1-13'', 1)
   \<and> fst (the (added_line (handleAddToCart (Some sample_page) 1 2)))
       \<noteq> fst (the (added_line (handleAddToCart (Some sample_page) 2 1)))"
proof -
  let ?v0 = "(sample_variant 10 0 0 True)\<lparr>variant_id := 11\<rparr>"
  let ?v1 = "(sample_variant 10 0 4 True)\<lparr>variant_id := 12\<rparr>"
  let ?v2 = "(sample_variant 10 0 2 True)\<lparr>variant_id := 13\<rparr>"
  let ?a = "handleAddToCart (Some sample_page) 1 2"
  let ?b = "handleAddToCart (Some sample_page) 2 1"
  have s0: "selectedVariantData (Some sample_page) 0 = Some ?v0"
    and s1: "selectedVariantData (Some sample_page) 1 = Some ?v1"
    and s2: "selectedVariantData (Some sample_page) 2 = Some ?v2"
    by (simp_all add: selectedVariantData_def sample_page_def)
  have st: "stock_total ?v0 = 0" "stock_total ?v1 = 4" "stock_total ?v2 = 2"
    "variant_id ?v1 = 12" "variant_id ?v2 = 13"
    by (simp_all add: sample_variant_def)
  from add_to_cart_gesture [where pr = sample_page and i = 0 and v = ?v0 and q = 1] s0 st
  have c1: "handleAddToCart (Some sample_page) 0 1 = Toast_error ''Producto agotado''"
    by blast
  have "stock_total ?v1 \<noteq> 0 \<and> stock_total ?v1 < 5" by (simp add: st)
  with add_to_cart_gesture [where pr = sample_page and i = 1 and v = ?v1 and q = 5] s1
  have "handleAddToCart (Some sample_page) 1 5 =
      Toast_error (''Solo hay '' @ show_int (stock_total ?v1) @ '' unidades disponibles'')"
    by blast
  then have c2: "handleAddToCart (Some sample_page) 1 5 = Toast_error ''Solo hay 4 unidades disponibles''"
    by (simp add: st show_int_samples)
  have "stock_total ?v1 \<noteq> 0 \<and> 2 \<le> stock_total ?v1" by (simp add: st)
  with add_to_cart_gesture [where pr = sample_page and i = 1 and v = ?v1 and q = 2] s1
  obtain item msg where a: "?a = Add_item item 2 msg"
    and ia: "item_id item = pp_id sample_page @ ''-'' @ show_int (variant_id ?v1)"
    by blast
  have "stock_total ?v2 \<noteq> 0 \<and> 1 \<le> stock_total ?v2" by (simp add: st)
  with add_to_cart_gesture [where pr = sample_page and i = 2 and v = ?v2 and q = 1] s2
  obtain item' msg' where b: "?b = Add_item item' 1 msg'"
    and ib: "item_id item' = pp_id sample_page @ ''-'' @ show_int (variant_id ?v2)"
    by blast
  from ia have ia': "item_id item = ''p1-12''"
    by (simp add: st show_int_samples sample_page_def)
  from ib have ib': "item_id item' = ''p1-13''"
    by (simp add: st show_int_samples sample_page_def)
  have "added_line ?a = Some (item_id item, 2)"
    unfolding a by (simp add: added_line_def)
  with ia' have c3: "added_line ?a = Some (''p1-12'', 2)" by simp
  have "added_line ?b = Some (item_id item', 1)"
    unfolding b by (simp add: added_line_def)
  with ib' have c4: "added_line ?b = Some (''p1-13'', 1)" by simp
  have "variant_id ?v1 \<noteq> variant_id ?v2" by (simp add: st)
  with add_to_cart_gesture [where pr = sample_page and i = 1 and j = 2 and v = ?v1 and w = ?v2
      and q = 2 and q' = 1 and ?item1.0 = item and ?item2.0 = item' and ?msg1.0 = msg and ?msg2.0 = msg']
    s1 s2 a b
  have "item_id item \<noteq> item_id item'" by blast
  then have c5: "fst (the (added_line ?a)) \<noteq> fst (the (added_line ?b))"
    unfolding a b by (simp add: added_line_def)
  from c1 c2 c3 c4 c5 show ?thesis by blast
qed

end
